theory Spec2Isabelle
  imports Main "HOL-Library.Sublist"
begin

section \<open>The schema type universe\<close>

text \<open>
  The checker in \<^verbatim>\<open>pkg/pulumiyaml/analyser.go\<close> works on the values of the interface
  \<^verbatim>\<open>schema.Type\<close> of the Pulumi code generator. The eight primitive types are values
  of one Go type and are compared with \<^verbatim>\<open>==\<close>; every other type is a pointer to a
  struct. A property of an object or resource is the pair of its name and its type.
  Pointer fields are taken to be non-nil, except \<^verbatim>\<open>TokenType.UnderlyingType\<close>, which
  the source tests for nil.

  A type is a finite tree here: its components are parts of it. In the library the
  components are pointers, and a type may refer back to itself through its properties (a
  recursive object type); such a type is no value of \<open>schemaType\<close>. The functions of
  the checker that descend into the components (\<^verbatim>\<open>isAssignable\<close>, \<^verbatim>\<open>displayType\<close>)
  keep no record of the types they have visited, so their termination, which is proved
  below by the size of the tree, is termination on the types that do not contain
  themselves, and every statement of this theory is about those types only. Nor does a
  tree tell whether two equal components are one pointer; where the source depends on
  that (a Go map keyed by the type), the answer is a parameter.
\<close>

datatype primitiveType =
    BoolType | IntType | NumberType | StringType
  | ArchiveType | AssetType | JSONType | AnyType

text \<open>
  A diagnostic: severity, summary and detail (the source range is left out). The zero
  value of the severity, which a diagnostic built without one has, is \<open>DiagInvalid\<close>.
\<close>

datatype severity = DiagInvalid | DiagError | DiagWarning

datatype diagnostic = Diagnostic (Severity: severity) (Summary: string) (Detail: string)

datatype schemaType =
    Primitive primitiveType
  | InvalidType "diagnostic list"
  | OptionalType schemaType
  | InputType schemaType
  | MapType schemaType
  | ArrayType schemaType
  | EnumType string schemaType
  | UnionType "schemaType list"
  | ObjectType string "(string \<times> schemaType) list"
  | ResourceType string "(string \<times> schemaType) list"
  | TokenType string "schemaType option"

text \<open>\<^verbatim>\<open>codegen.UnwrapType\<close>: removes any outer optional and input wrappers.\<close>

fun UnwrapType :: "schemaType \<Rightarrow> schemaType" where
  "UnwrapType (InputType t) = UnwrapType t"
| "UnwrapType (OptionalType t) = UnwrapType t"
| "UnwrapType t = t"

text \<open>\<^verbatim>\<open>Property.IsRequired\<close>: a property is required unless its type is optional.\<close>

fun IsRequired :: "schemaType \<Rightarrow> bool" where
  "IsRequired (OptionalType _) = False"
| "IsRequired _ = True"

text \<open>
  \<^verbatim>\<open>ObjectType.Property\<close> looks a name up in a table filled from the property list in
  order, so that the last property of a name is the one found.
\<close>

definition Property :: "(string \<times> schemaType) list \<Rightarrow> string \<Rightarrow> schemaType option" where
  "Property props name = map_of (rev props) name"

text \<open>\<^verbatim>\<open>strings.Join\<close>.\<close>

fun Join :: "string list \<Rightarrow> string \<Rightarrow> string" where
  "Join [] sep = []"
| "Join [x] sep = x"
| "Join (x # y # ys) sep = x @ sep @ Join (y # ys) sep"

section \<open>Rendering types\<close>

definition adhockObjectToken :: string where
  "adhockObjectToken = ''pulumi:adhock:''"

lemma size_UnwrapType: "size (UnwrapType t) \<le> size t"
  by (induction t rule: UnwrapType.induct) auto

lemma size_prop_in_list:
  "(n, t) \<in> set props \<Longrightarrow> size t < Suc (size_list (size_prod (\<lambda>_. 0) size) props)"
  by (induction props) auto

lemma size_elem_in_list:
  "t \<in> set ts \<Longrightarrow> size t < Suc (size_list size ts)"
  by (induction ts) auto

text \<open>
  \<^verbatim>\<open>displayType\<close>. The method \<^verbatim>\<open>String()\<close> of a schema type belongs to the code
  generator's library and is the parameter \<open>str\<close>.
\<close>

function displayType :: "(schemaType \<Rightarrow> string) \<Rightarrow> schemaType \<Rightarrow> string" where
  "displayType str t =
     (case UnwrapType t of
        ObjectType token props \<Rightarrow>
          if \<not> prefix adhockObjectToken token then token
          else ''{'' @ Join (map (\<lambda>(n, ty). n @ '': '' @ displayType str ty) props) '', '' @ ''}''
      | ArrayType e \<Rightarrow> ''List<'' @ displayType str e @ ''>''
      | MapType e \<Rightarrow> ''Map<'' @ displayType str e @ ''>''
      | UnionType es \<Rightarrow> ''Union<'' @ Join (map (displayType str) es) '', '' @ ''>''
      | u \<Rightarrow> str u)"
  by pat_completeness auto
termination
proof (relation "measure (\<lambda>(str, t). size t)", goal_cases)
  case 1
  show ?case by simp
next
  case (2 str t e)
  then show ?case using size_UnwrapType [of t] by simp
next
  case (3 str t e)
  then show ?case using size_UnwrapType [of t] by simp
next
  case (4 str t es z)
  then show ?case using size_UnwrapType [of t] size_elem_in_list [of z es] by simp
next
  case (5 str t token props x n ty)
  then show ?case using size_UnwrapType [of t] size_prop_in_list [of n ty props] by simp
qed

declare displayType.simps [simp del]

section \<open>Assignability\<close>

text \<open>
  \<^verbatim>\<open>notAssignable\<close> is the logic chain for why an assignment is not possible: a
  reason, the reasons it rests on, whether it is an internal error, and the property it
  is about.
\<close>

datatype notAssignable =
  NotAssignable (reason: string) (because: "notAssignable list") (internal: bool) (property: string)

fun Because :: "notAssignable \<Rightarrow> notAssignable list \<Rightarrow> notAssignable" where
  "Because (NotAssignable r _ i p) b = NotAssignable r b i p"

fun WithProperty :: "notAssignable \<Rightarrow> string \<Rightarrow> notAssignable" where
  "WithProperty (NotAssignable r b i _) propName = NotAssignable r b i propName"

text \<open>\<^verbatim>\<open>notAssignable.IsInternal\<close>: the reason or one it rests on is internal.\<close>

fun IsInternal :: "notAssignable \<Rightarrow> bool" where
  "IsInternal (NotAssignable r b i p) = (i \<or> (\<exists>x \<in> set b. IsInternal x))"

text \<open>The values an option list holds, in order.\<close>

fun somes :: "'a option list \<Rightarrow> 'a list" where
  "somes [] = []"
| "somes (None # xs) = somes xs"
| "somes (Some x # xs) = x # somes xs"

text \<open>The name of the Go type of a value, as \<^verbatim>\<open>%T\<close> prints it.\<close>

fun goTypeName :: "schemaType \<Rightarrow> string" where
  "goTypeName (Primitive _) = ''schema.primitiveType''"
| "goTypeName (InvalidType _) = ''*schema.InvalidType''"
| "goTypeName (OptionalType _) = ''*schema.OptionalType''"
| "goTypeName (InputType _) = ''*schema.InputType''"
| "goTypeName (MapType _) = ''*schema.MapType''"
| "goTypeName (ArrayType _) = ''*schema.ArrayType''"
| "goTypeName (EnumType _ _) = ''*schema.EnumType''"
| "goTypeName (UnionType _) = ''*schema.UnionType''"
| "goTypeName (ObjectType _ _) = ''*schema.ObjectType''"
| "goTypeName (ResourceType _ _) = ''*schema.ResourceType''"
| "goTypeName (TokenType _ _) = ''*schema.TokenType''"

definition failReason :: "(schemaType \<Rightarrow> string) \<Rightarrow> schemaType \<Rightarrow> schemaType \<Rightarrow> notAssignable" where
  "failReason str from to =
     NotAssignable (''Cannot assign '' @ displayType str from @ '' to type '' @ displayType str to)
       [] False []"

definition okIf :: "notAssignable \<Rightarrow> bool \<Rightarrow> notAssignable option" where
  "okIf fail cond = (if \<not> cond then Some fail else None)"

definition okIfAssignable :: "notAssignable \<Rightarrow> notAssignable option \<Rightarrow> notAssignable option" where
  "okIfAssignable fail s = (case s of None \<Rightarrow> None | Some r \<Rightarrow> Some (Because fail [r]))"

lemma Property_in_set: "Property props n = Some t \<Longrightarrow> (n, t) \<in> set props"
  unfolding Property_def by (auto dest: map_of_SomeD)

text \<open>
  Go's type assertions \<^verbatim>\<open>x, ok := t.(*schema.T)\<close>: the fields of \<open>t\<close> when it is
  of that type.
\<close>

fun isInvalidType :: "schemaType \<Rightarrow> bool" where
  "isInvalidType (InvalidType _) = True"
| "isInvalidType _ = False"

fun asUnionType :: "schemaType \<Rightarrow> schemaType list option" where
  "asUnionType (UnionType elementTypes) = Some elementTypes"
| "asUnionType _ = None"

fun asPrimitive :: "schemaType \<Rightarrow> primitiveType option" where
  "asPrimitive (Primitive p) = Some p"
| "asPrimitive _ = None"

fun asArrayType :: "schemaType \<Rightarrow> schemaType option" where
  "asArrayType (ArrayType e) = Some e"
| "asArrayType _ = None"

fun asMapType :: "schemaType \<Rightarrow> schemaType option" where
  "asMapType (MapType e) = Some e"
| "asMapType _ = None"

fun asObjectType :: "schemaType \<Rightarrow> (string \<times> (string \<times> schemaType) list) option" where
  "asObjectType (ObjectType token props) = Some (token, props)"
| "asObjectType _ = None"

fun asResourceType :: "schemaType \<Rightarrow> (string \<times> (string \<times> schemaType) list) option" where
  "asResourceType (ResourceType token props) = Some (token, props)"
| "asResourceType _ = None"

lemma asUnionType_Some: "asUnionType t = Some es \<longleftrightarrow> t = UnionType es"
  by (cases t) auto

lemma asArrayType_Some: "asArrayType t = Some e \<longleftrightarrow> t = ArrayType e"
  by (cases t) auto

lemma asMapType_Some: "asMapType t = Some e \<longleftrightarrow> t = MapType e"
  by (cases t) auto

lemma asObjectType_Some: "asObjectType t = Some (tok, ps) \<longleftrightarrow> t = ObjectType tok ps"
  by (cases t) auto

lemma asResourceType_Some: "asResourceType t = Some (tok, ps) \<longleftrightarrow> t = ResourceType tok ps"
  by (cases t) auto

lemma asPrimitive_Some: "asPrimitive t = Some p \<longleftrightarrow> t = Primitive p"
  by (cases t) auto

lemma sz_Map: "MapType e = UnwrapType t \<Longrightarrow> size e < size t"
  using size_UnwrapType [of t] by (cases "UnwrapType t") auto
lemma sz_Array: "ArrayType e = UnwrapType t \<Longrightarrow> size e < size t"
  using size_UnwrapType [of t] by (cases "UnwrapType t") auto
lemma sz_Enum: "EnumType a e = UnwrapType t \<Longrightarrow> size e < size t"
  using size_UnwrapType [of t] by (cases "UnwrapType t") auto
lemma sz_Token: "TokenType a (Some e) = UnwrapType t \<Longrightarrow> size e < size t"
  using size_UnwrapType [of t] by (cases "UnwrapType t") auto
lemma sz_Union: "UnionType es = UnwrapType t \<Longrightarrow> x \<in> set es \<Longrightarrow> size x < size t"
  using size_UnwrapType [of t] size_elem_in_list [of x es] by (cases "UnwrapType t") auto
lemma sz_Object: "ObjectType a ps = UnwrapType t \<Longrightarrow> (n, ty) \<in> set ps \<Longrightarrow> size ty < size t"
  using size_UnwrapType [of t] size_prop_in_list [of n ty ps] by (cases "UnwrapType t") auto
lemma sz_asMap: "asMapType (UnwrapType t) = Some e \<Longrightarrow> size e < size t"
  by (simp add: asMapType_Some sz_Map)
lemma sz_asArray: "asArrayType (UnwrapType t) = Some e \<Longrightarrow> size e < size t"
  by (simp add: asArrayType_Some sz_Array)
lemma sz_asUnion: "asUnionType (UnwrapType t) = Some es \<Longrightarrow> x \<in> set es \<Longrightarrow> size x < size t"
  by (simp add: asUnionType_Some sz_Union)
lemma sz_asObject: "asObjectType (UnwrapType t) = Some (a, ps) \<Longrightarrow> (n, ty) \<in> set ps \<Longrightarrow> size ty < size t"
  by (simp add: asObjectType_Some sz_Object [of a ps t n ty])


text \<open>
  \<^verbatim>\<open>isAssignable\<close> determines if the type \<open>from\<close> is assignable to the type \<open>to\<close>.
  If the assignment is legal, nil (\<open>None\<close>) is returned. The loops of the source that
  return at the first failure or the first success are written over the list of the
  results of all iterations: the iterations have no effect besides their result. The
  test \<^verbatim>\<open>schema.IsPrimitiveType(to)\<close> with the switch over the primitive types that
  follows it is the case on \<open>asPrimitive to\<close>.
\<close>

function isAssignable ::
  "(schemaType \<Rightarrow> string) \<Rightarrow> schemaType \<Rightarrow> schemaType \<Rightarrow> notAssignable option" where
  "isAssignable str from0 to0 =
     (let to = UnwrapType to0; from = UnwrapType from0 in
      if isInvalidType from then None
      else if isInvalidType to then None
      else
       let fail = failReason str from to in
       case asUnionType from of
         Some elementTypes \<Rightarrow>
           (let reasons = somes (map (\<lambda>subtype. isAssignable str subtype to) elementTypes)
            in if length reasons = 0 then None else Some (Because fail reasons))
       | None \<Rightarrow>
       (case asPrimitive to of
          Some p \<Rightarrow>
           (case p of
              AnyType \<Rightarrow> okIf fail True
            | NumberType \<Rightarrow> okIf fail (from = Primitive NumberType \<or> from = Primitive IntType)
            | IntType \<Rightarrow> okIf fail (from = Primitive NumberType \<or> from = Primitive IntType)
            | StringType \<Rightarrow>
                (let isResource = (asResourceType from \<noteq> None)
                 in okIf fail (isResource \<or> from = Primitive StringType \<or>
                      from = Primitive NumberType \<or>
                      from = Primitive IntType \<or>
                      from = Primitive BoolType))
            | AssetType \<Rightarrow> okIf fail (from = Primitive AssetType \<or> from = Primitive ArchiveType)
            | _ \<Rightarrow> okIf fail (from = to))
        | None \<Rightarrow>
       (case to of
         UnionType elementTypes \<Rightarrow>
           (let results = map (\<lambda>subtype. isAssignable str from subtype) elementTypes
            in if None \<in> set results then None else Some (Because fail (somes results)))
       | ArrayType toElem \<Rightarrow>
           (case asArrayType from of
              None \<Rightarrow> Some fail
            | Some fromElem \<Rightarrow> okIfAssignable fail (isAssignable str fromElem toElem))
       | MapType toElem \<Rightarrow>
           (case asMapType from of
              Some fromElem \<Rightarrow> okIfAssignable fail (isAssignable str fromElem toElem)
            | None \<Rightarrow>
           (case asObjectType from of
              Some (fromToken, fromProps) \<Rightarrow>
                if length fromProps = 0 then okIf fail True
                else
                  (case somes (map (\<lambda>(name, typ).
                           map_option (\<lambda>notOk. WithProperty notOk name)
                             (isAssignable str typ toElem)) fromProps) of
                     notOk # _ \<Rightarrow> Some (Because fail [notOk])
                   | [] \<Rightarrow> okIf fail True)
            | None \<Rightarrow> Some fail))
       | ResourceType toToken _ \<Rightarrow>
           (case asResourceType from of
              Some (fromToken, _) \<Rightarrow> okIf fail (toToken = fromToken)
            | None \<Rightarrow> okIf fail False)
       | EnumType _ toElem \<Rightarrow>
           (case isAssignable str from toElem of
              Some _ \<Rightarrow> Some fail
            | None \<Rightarrow> okIf fail True)
       | ObjectType _ toProps \<Rightarrow>
           (case asObjectType from of
              None \<Rightarrow> Some fail
            | Some (fromToken, fromProps) \<Rightarrow>
                (let failures = somes (map (\<lambda>(name, typ).
                       case Property fromProps name of
                         None \<Rightarrow>
                           if IsRequired typ
                           then Some (WithProperty
                                  (NotAssignable
                                     (''Missing required property '' @ [CHR 0x27] @ name @ [CHR 0x27])
                                     [] False []) name)
                           else None
                       | Some fromPropType \<Rightarrow>
                           map_option (\<lambda>notOk. WithProperty notOk name)
                             (isAssignable str fromPropType typ)) toProps)
                 in if length failures > 0 then Some (Because fail failures) else None))
       | TokenType toToken underlying \<Rightarrow>
           (case underlying of
              Some u \<Rightarrow> isAssignable str from u
            | None \<Rightarrow> Some (NotAssignable (''Unknown opaque type: '' @ toToken) [] True []))
       | _ \<Rightarrow>
           Some (NotAssignable (''Unknown type: '' @ str to @ '' ('' @ goTypeName to @ '')'')
                   [] True []))))"
  by pat_completeness auto
termination
proof (relation "measure (\<lambda>(str, f, t). size f + size t)", goal_cases)
  case 1
  show ?case by simp
next
  case (2 str from0 to0 x xa xb x5 x2 xc y xd xe ya)
  then show ?case using sz_Map [of x5 to0] sz_asObject [of from0 xc y xe ya] by simp
next
  case (3 str from0 to0 x xa xb x5 x2)
  then show ?case using sz_Map [of x5 to0] sz_asMap [of from0 x2] by simp
next
  case (4 str from0 to0 x xa xb x6 x2)
  then show ?case using sz_Array [of x6 to0] sz_asArray [of from0 x2] by simp
next
  case (5 str from0 to0 x xa xb x71 x72)
  then show ?case using sz_Enum [of x71 x72 to0] size_UnwrapType [of from0] by simp
next
  case (6 str from0 to0 x xa xb x8 xc)
  then show ?case using sz_Union [of x8 to0 xc] size_UnwrapType [of from0] by simp
next
  case (7 str from0 to0 x xa xb x91 x92 x2 xc y xd xe ya x2a)
  then show ?case
    using sz_Object [of x91 x92 to0 xe ya] sz_asObject [of from0 xc y xe x2a]
      Property_in_set [of y xe x2a] by simp
next
  case (8 str from0 to0 x xa xb x111 x112 x2)
  then show ?case using sz_Token [of x111 x2 to0] size_UnwrapType [of from0] by simp
next
  case (9 str from0 to0 x xa xb x2 xaa)
  then show ?case using sz_asUnion [of from0 x2 xaa] size_UnwrapType [of to0] by simp
qed

declare isAssignable.simps [simp del]

text \<open>
  \<^verbatim>\<open>notAssignable.String\<close>: the chain rendered depth-first, one reason a line, each
  level indented by two spaces.
\<close>

fun stringIndent :: "nat \<Rightarrow> notAssignable \<Rightarrow> string" where
  "stringIndent indent (NotAssignable r b i p) =
     (let prop = (if p \<noteq> [] then p @ '': '' else []);
          s = concat (replicate indent ''  '') @ prop @ r;
          s = (if length b > 0 then s @ '':'' else s)
      in foldl (\<lambda>s arg. s @ [CHR 0x0A] @ stringIndent (indent + 1) arg) s b)"

definition notAssignable_String :: "notAssignable \<Rightarrow> string" where
  "notAssignable_String n = stringIndent 0 n"

section \<open>The Go standard library\<close>

text \<open>
  \<^verbatim>\<open>utf8.DecodeRuneInString\<close> gives the width of the first rune of a string: 0 for
  the empty string, 1 for a byte that starts no well-formed UTF-8 sequence. A string is
  a list of bytes.
\<close>

definition byte :: "char \<Rightarrow> nat" where
  "byte c = of_char c"

definition isCont :: "char \<Rightarrow> bool" where
  "isCont c = (0x80 \<le> byte c \<and> byte c \<le> 0xBF)"

fun runeWidth :: "string \<Rightarrow> nat" where
  "runeWidth [] = 0"
| "runeWidth (c # cs) =
     (let b = byte c in
      if b < 0x80 then 1
      else if b < 0xC2 then 1
      else if b \<le> 0xDF then
        (case cs of c1 # _ \<Rightarrow> if isCont c1 then 2 else 1 | _ \<Rightarrow> 1)
      else if b \<le> 0xEF then
        (let lo = (if b = 0xE0 then 0xA0 else 0x80); hi = (if b = 0xED then 0x9F else 0xBF)
         in case cs of
              c1 # c2 # _ \<Rightarrow> if lo \<le> byte c1 \<and> byte c1 \<le> hi \<and> isCont c2 then 3 else 1
            | _ \<Rightarrow> 1)
      else if b \<le> 0xF4 then
        (let lo = (if b = 0xF0 then 0x90 else 0x80); hi = (if b = 0xF4 then 0x8F else 0xBF)
         in case cs of
              c1 # c2 # c3 # _ \<Rightarrow>
                if lo \<le> byte c1 \<and> byte c1 \<le> hi \<and> isCont c2 \<and> isCont c3 then 4 else 1
            | _ \<Rightarrow> 1)
      else 1)"

lemma runeWidth_pos: "s \<noteq> [] \<Longrightarrow> 0 < runeWidth s"
  by (cases s) (auto simp: Let_def split: list.splits)

text \<open>\<^verbatim>\<open>utf8.ValidString\<close>: the string is a sequence of well-formed UTF-8 runes.\<close>

function ValidString :: "string \<Rightarrow> bool" where
  "ValidString [] = True"
| "ValidString (c # cs) =
     (if byte c < 0x80 then ValidString cs
      else let w = runeWidth (c # cs) in
           if w = 1 then False else ValidString (drop w (c # cs)))"
  by pat_completeness auto
termination
proof (relation "measure length", goal_cases)
  case 1
  show ?case by simp
next
  case (2 c cs)
  show ?case by simp
next
  case (3 c cs w)
  then show ?case using runeWidth_pos [of "c # cs"] by (simp del: runeWidth.simps)
qed

text \<open>
  \<^verbatim>\<open>strings.Split\<close>: the substrings between the occurrences of the separator, found
  from the left and not overlapping; with an empty separator, the runes of the string.
\<close>

function explode :: "string \<Rightarrow> string list" where
  "explode s = (if s = [] then [] else take (runeWidth s) s # explode (drop (runeWidth s) s))"
  by pat_completeness auto
termination
proof (relation "measure length", goal_cases)
  case 1
  show ?case by simp
next
  case (2 s)
  then show ?case using runeWidth_pos [of s] by simp
qed

declare explode.simps [simp del]

function genSplit :: "string \<Rightarrow> string \<Rightarrow> string \<Rightarrow> string list" where
  "genSplit sep cur [] = [cur]"
| "genSplit sep cur (c # cs) =
     (if sep \<noteq> [] \<and> prefix sep (c # cs)
      then cur # genSplit sep [] (drop (length sep) (c # cs))
      else genSplit sep (cur @ [c]) cs)"
  by pat_completeness auto
termination
  by (relation "measure (\<lambda>(sep, cur, s). length s)") auto

definition Split :: "string \<Rightarrow> string \<Rightarrow> string list" where
  "Split s sep = (if sep = [] then explode s else genSplit sep [] s)"

section \<open>Packages\<close>

text \<open>
  A schema package of the code generator, as \<^verbatim>\<open>resourcePackage\<close> uses it: its name, its
  provider's token, the name of the provider's package, and the tables behind
  \<^verbatim>\<open>GetResource\<close> and \<^verbatim>\<open>GetFunction\<close>, which map a token to the token of the
  resource or function found.
\<close>

record schemaPackage =
  pkg_Name :: string
  pkg_ProviderToken :: string
  pkg_ProviderPackageName :: string
  pkg_GetResource :: "string \<Rightarrow> string option"
  pkg_GetFunction :: "string \<Rightarrow> string option"

datatype error =
    InvalidTypeToken string
  | UnableToFindResource string string
  | UnableToFindFunction string string
  | LoadingPackage string error
  | LoaderError string

text \<open>
  \<^verbatim>\<open>resourcePackage.ResolveResource\<close>. \<^verbatim>\<open>strcase.ToLowerCamel\<close> belongs to a library
  and is the parameter \<open>toLowerCamel\<close>.
\<close>

definition resourcePackage_ResolveResource ::
  "(string \<Rightarrow> string) \<Rightarrow> schemaPackage \<Rightarrow> string \<Rightarrow> error + string" where
  "resourcePackage_ResolveResource toLowerCamel p typeName =
     (let typeParts = Split typeName '':'' in
      if length typeParts < 2 \<or> length typeParts > 3 then Inl (InvalidTypeToken typeName)
      else if length typeParts = 3 \<and> typeParts ! 0 = ''pulumi'' \<and>
              typeParts ! 1 = ''providers'' \<and> typeParts ! 2 = pkg_Name p
      then Inr (pkg_ProviderToken p)
      else
        case pkg_GetResource p typeName of
          Some res \<Rightarrow> Inr res
        | None \<Rightarrow>
          (case (if length typeParts = 2
                 then pkg_GetResource p (typeParts ! 0 @ '':index:'' @ typeParts ! 1)
                 else None) of
             Some res \<Rightarrow> Inr res
           | None \<Rightarrow>
             (let typeParts = (if length typeParts = 2
                               then [typeParts ! 0, ''index'', typeParts ! 1] else typeParts)
              in case (if length typeParts = 3
                       then pkg_GetResource p
                              (typeParts ! 0 @ '':'' @ typeParts ! 1 @ ''/'' @
                               toLowerCamel (typeParts ! 2) @ '':'' @ typeParts ! 2)
                       else None) of
                   Some res \<Rightarrow> Inr res
                 | None \<Rightarrow> Inl (UnableToFindResource typeName (pkg_ProviderPackageName p)))))"

text \<open>\<^verbatim>\<open>resourcePackage.ResolveFunction\<close>.\<close>

definition resourcePackage_ResolveFunction ::
  "(string \<Rightarrow> string) \<Rightarrow> schemaPackage \<Rightarrow> string \<Rightarrow> error + string" where
  "resourcePackage_ResolveFunction toLowerCamel p typeName =
     (let typeParts = Split typeName '':'' in
      if length typeParts < 2 \<or> length typeParts > 3 then Inl (InvalidTypeToken typeName)
      else
        case pkg_GetFunction p typeName of
          Some res \<Rightarrow> Inr res
        | None \<Rightarrow>
          (case (if length typeParts = 2
                 then pkg_GetFunction p (typeParts ! 0 @ '':index:'' @ typeParts ! 1)
                 else None) of
             Some res \<Rightarrow> Inr res
           | None \<Rightarrow>
             (let typeParts = (if length typeParts = 2
                               then [typeParts ! 0, ''index'', typeParts ! 1] else typeParts)
              in case (if length typeParts = 3
                       then pkg_GetFunction p
                              (typeParts ! 0 @ '':'' @ typeParts ! 1 @ ''/'' @
                               toLowerCamel (typeParts ! 2) @ '':'' @ typeParts ! 2)
                       else None) of
                   Some res \<Rightarrow> Inr res
                 | None \<Rightarrow> Inl (UnableToFindFunction typeName (pkg_ProviderPackageName p)))))"

text \<open>
  A function of a package schema, as the checker reads it: the properties of its inputs
  and the token and properties of its outputs; either object may be nil, the function
  itself is not.
\<close>

record schemaFunction =
  fn_Inputs :: "(string \<times> schemaType) list option"
  fn_Outputs :: "(string \<times> (string \<times> schemaType) list) option"

text \<open>The interface \<^verbatim>\<open>Package\<close>, with the methods the checker calls.\<close>

record Package =
  Package_Name :: string
  Package_ResolveResource :: "string \<Rightarrow> error + string"
  Package_ResolveFunction :: "string \<Rightarrow> error + string"
  Package_IsComponent :: "string \<Rightarrow> error + bool"
  Package_FunctionTypeHint :: "string \<Rightarrow> schemaFunction"

type_synonym PackageLoader = "string \<Rightarrow> error + Package"

text \<open>\<^verbatim>\<open>resolvePkgName\<close>, \<^verbatim>\<open>loadPackage\<close>, \<^verbatim>\<open>ResolveResource\<close> and \<^verbatim>\<open>ResolveFunction\<close>.\<close>

definition resolvePkgName :: "string \<Rightarrow> string" where
  "resolvePkgName typeString =
     (let typeParts = Split typeString '':'' in
      if length typeParts = 3 \<and> typeParts ! 0 = ''pulumi'' \<and> typeParts ! 1 = ''providers''
      then typeParts ! 2
      else typeParts ! 0)"

definition loadPackage :: "PackageLoader \<Rightarrow> string \<Rightarrow> error + Package" where
  "loadPackage loader typeString =
     (let typeParts = Split typeString '':'' in
      if length typeParts < 2 \<or> length typeParts > 3 then Inl (InvalidTypeToken typeString)
      else
        let packageName = resolvePkgName typeString in
        case loader packageName of
          Inl err \<Rightarrow> Inl (LoadingPackage packageName err)
        | Inr pkg \<Rightarrow> Inr pkg)"

definition ResolveResource :: "PackageLoader \<Rightarrow> string \<Rightarrow> error + (Package \<times> string)" where
  "ResolveResource loader typeString =
     (case loadPackage loader typeString of
        Inl err \<Rightarrow> Inl err
      | Inr pkg \<Rightarrow>
          (case Package_ResolveResource pkg typeString of
             Inl err \<Rightarrow> Inl err
           | Inr canonicalName \<Rightarrow> Inr (pkg, canonicalName)))"

definition ResolveFunction :: "PackageLoader \<Rightarrow> string \<Rightarrow> error + (Package \<times> string)" where
  "ResolveFunction loader typeString =
     (case loadPackage loader typeString of
        Inl err \<Rightarrow> Inl err
      | Inr pkg \<Rightarrow>
          (case Package_ResolveFunction pkg typeString of
             Inl err \<Rightarrow> Inl err
           | Inr canonicalName \<Rightarrow> Inr (pkg, canonicalName)))"

section \<open>Library functions taken as parameters\<close>

text \<open>
  The checker's messages call functions whose code is not modelled and which are
  parameters: the method \<^verbatim>\<open>String()\<close> of a schema type, the verb \<^verbatim>\<open>%q\<close> of
  \<^verbatim>\<open>fmt.Sprintf\<close> and \<^verbatim>\<open>strings.ToLower\<close>, which belong to libraries, and
  \<^verbatim>\<open>NonExistantFieldFormatter.MessageWithDetail\<close> of the package \<^verbatim>\<open>diags\<close>, which
  takes the parent label, the fields, the maximum number of elements listed, whether
  the fields are properties, the field and its label, and gives a summary and a detail.

  The last parameter, \<open>mapKeys\<close>, is the run-time's: the keys of a Go map of type
  \<^verbatim>\<open>map[schema.Type]struct{}\<close> in which the listed types were stored one after the
  other, as a \<^verbatim>\<open>range\<close> loop over the map gives them. Two primitive types are one key
  when they are equal, two other types are one key when they are the same pointer, and
  the order of the loop is not specified. The type values of this theory tell neither
  which of two equal types are one pointer nor the order, so the list of the keys is not
  computed here. What holds of every run is that the keys are the types stored:
  \<open>set (mapKeys lib ts) = set ts\<close>; the theorems that read a key list assume no more.
\<close>

record goLibrary =
  typeString :: "schemaType \<Rightarrow> string"
  quote :: "string \<Rightarrow> string"
  ToLower :: "string \<Rightarrow> string"
  MessageWithDetail :: "string \<Rightarrow> string list \<Rightarrow> nat \<Rightarrow> bool \<Rightarrow> string \<Rightarrow> string \<Rightarrow> string \<times> string"
  mapKeys :: "schemaType list \<Rightarrow> schemaType list"

text \<open>The verb \<^verbatim>\<open>%d\<close>: an integer in decimal.\<close>

function showNat :: "nat \<Rightarrow> string" where
  "showNat n = (if n < 10 then [char_of (48 + n)] else showNat (n div 10) @ [char_of (48 + n mod 10)])"
  by pat_completeness auto
termination
  by (relation "measure id") auto

declare showNat.simps [simp del]

definition showInt :: "int \<Rightarrow> string" where
  "showInt i = (if i < 0 then ''-'' @ showNat (nat (- i)) else showNat (nat i))"

text \<open>\<^verbatim>\<open>error.Error()\<close> for the errors of package resolution.\<close>

fun errorString :: "goLibrary \<Rightarrow> error \<Rightarrow> string" where
  "errorString lib (InvalidTypeToken t) = ''invalid type token '' @ quote lib t"
| "errorString lib (UnableToFindResource t p) =
     ''unable to find resource type '' @ quote lib t @ '' in resource provider '' @ quote lib p"
| "errorString lib (UnableToFindFunction t p) =
     ''unable to find function '' @ quote lib t @ '' in resource provider '' @ quote lib p"
| "errorString lib (LoadingPackage n e) =
     ''internal error loading package '' @ quote lib n @ '': '' @ errorString lib e"
| "errorString lib (LoaderError m) = m"

section \<open>The evaluation context\<close>

text \<open>
  Of \<^verbatim>\<open>evalContext\<close> the checker uses the package loader and the diagnostics of the
  runner, to which \<^verbatim>\<open>addDiag\<close> appends.
\<close>

record evalContext =
  pkgLoader :: PackageLoader
  sdiags :: "diagnostic list"

definition addDiag :: "evalContext \<Rightarrow> diagnostic \<Rightarrow> evalContext" where
  "addDiag ctx diag = ctx\<lparr>sdiags := sdiags ctx @ [diag]\<rparr>"

text \<open>
  Modelled from the spec: \<^verbatim>\<open>evalContext.error\<close> is defined in the runner's file, which
  is not among the sources. By section 7 of the specification every failure becomes a
  diagnostic: it adds an error diagnostic with the summary and an empty detail, and
  its boolean result, which the visitor returns, says that the visit failed.
\<close>

definition ctx_error :: "evalContext \<Rightarrow> string \<Rightarrow> bool \<times> evalContext" where
  "ctx_error ctx summary = (False, addDiag ctx (Diagnostic DiagError summary []))"

text \<open>
  A value of the interface \<^verbatim>\<open>schema.Type\<close> as the checker's tables hold it: the nil
  interface (also what a table gives for a key it does not hold), a nil pointer to an
  object type, or a type. The run-time panics of Go are values; \<open>NilElementType\<close> is
  not a panic: it marks a run that would put a nil type inside an array, union or object
  type, which the type values here do not represent, and the model stops there.
\<close>

datatype typeValue = NilInterface | NilObjectPointer | Typ schemaType

datatype goPanic = NilDereference | TypeAssertionFailed string | Panic string | NilElementType

text \<open>
  \<^verbatim>\<open>isAssignable\<close> on table values. A nil value is not an invalid type; unless the
  other side is invalid, building the failure reason calls \<^verbatim>\<open>displayType\<close> on it,
  which dereferences nil.
\<close>

fun isAssignableValue ::
  "(schemaType \<Rightarrow> string) \<Rightarrow> typeValue \<Rightarrow> typeValue \<Rightarrow> goPanic + notAssignable option" where
  "isAssignableValue str (Typ from) (Typ to) = Inr (isAssignable str from to)"
| "isAssignableValue str (Typ from) _ =
     (if isInvalidType (UnwrapType from) then Inr None else Inl NilDereference)"
| "isAssignableValue str _ (Typ to) =
     (if isInvalidType (UnwrapType to) then Inr None else Inl NilDereference)"
| "isAssignableValue str _ _ = Inl NilDereference"

text \<open>
  \<^verbatim>\<open>assertTypeAssignable\<close> provides a diagnostic if it is illegal to assign \<open>from\<close>
  to \<open>to\<close>: a warning for an internal reason, an error otherwise.
\<close>

definition assertTypeAssignable ::
  "goLibrary \<Rightarrow> evalContext \<Rightarrow> typeValue \<Rightarrow> typeValue \<Rightarrow> goPanic + evalContext" where
  "assertTypeAssignable lib ctx from to =
     (if to = NilInterface then Inr ctx
      else
        case isAssignableValue (typeString lib) from to of
          Inl p \<Rightarrow> Inl p
        | Inr None \<Rightarrow> Inr ctx
        | Inr (Some result) \<Rightarrow>
            (case (from, to) of
               (Typ f, Typ t) \<Rightarrow>
                 (let summary = displayType (typeString lib) t @ '' is not assignable from '' @
                                displayType (typeString lib) f
                  in if IsInternal result
                     then Inr (addDiag ctx (Diagnostic DiagWarning (''internal error: '' @ summary)
                                 (notAssignable_String result)))
                     else Inr (addDiag ctx (Diagnostic DiagError summary (notAssignable_String result))))
             | _ \<Rightarrow> Inl NilDereference))"

section \<open>Typing a property access\<close>

text \<open>
  An accessor is \<^verbatim>\<open>.name\<close> or \<^verbatim>\<open>[index]\<close>, where the index is a string or an
  integer.
\<close>

datatype propertyIndex = IndexString string | IndexInt int

datatype propertyAccessor = PropertyName string | PropertySubscript propertyIndex

fun isPropertySubscript :: "propertyAccessor \<Rightarrow> bool" where
  "isPropertySubscript (PropertySubscript _) = True"
| "isPropertySubscript _ = False"

text \<open>
  \<^verbatim>\<open>typePropertyAccess\<close> takes a callback \<^verbatim>\<open>setError\<close>, which has an effect (it
  records the error) and returns an invalid type. The model returns, beside the type,
  the list of the calls made to the callback, as pairs of summary and detail, for the
  caller to apply the effect; \<open>mk\<close> is the value the callback returns, which for every
  callback of the checker depends on its arguments only.

  The source tests whether the root is a union type before it removes optional and
  input wrappers, so a union under a wrapper is not a union root. On a union root the
  source collects the types of the branches that are not invalid types in a Go map keyed
  by the type, and reads the keys back with a \<^verbatim>\<open>range\<close> loop: the list \<open>arr\<close> is
  \<open>mapKeys lib\<close> of the types stored.
\<close>

function typePropertyAccess ::
  "goLibrary \<Rightarrow> (string \<Rightarrow> string \<Rightarrow> schemaType) \<Rightarrow> schemaType \<Rightarrow> string \<Rightarrow>
   propertyAccessor list \<Rightarrow> schemaType \<times> (string \<times> string) list" where
  "typePropertyAccess lib mk root runningName accessors =
     (case accessors of
        [] \<Rightarrow> (root, [])
      | accessor # rest \<Rightarrow>
     (case asUnionType root of
        Some elementTypes \<Rightarrow>
          (let results = map (\<lambda>subtypes.
                 (subtypes, typePropertyAccess lib (\<lambda>summary detail. InvalidType [])
                              subtypes runningName accessors)) elementTypes;
               errs = concat (map (\<lambda>(subtypes, (t, calls)).
                        map (\<lambda>(summary, detail).
                          NotAssignable summary [] False (typeString lib subtypes)) calls) results);
               possibilities = filter (\<lambda>t. \<not> isInvalidType t)
                                 (map (\<lambda>(subtypes, (t, calls)). t) results);
               arr = mapKeys lib possibilities
           in if length errs > 0 then
                (let op = (if isPropertySubscript accessor then ''index'' else ''access'')
                 in (InvalidType [],
                     [(''Cannot '' @ op @ '' into '' @ runningName @ '' of type '' @
                         displayType (typeString lib) root,
                       notAssignable_String
                         (NotAssignable ([CHR 0x27] @ runningName @ [CHR 0x27] @
                            '' could be a type that does not support '' @ op @ ''ing'')
                            errs False []))]))
              else if length arr = 1 then (arr ! 0, [])
              else (UnionType arr, []))
      | None \<Rightarrow>
     (case accessor of
        PropertyName name \<Rightarrow>
          (let unwrapped = UnwrapType root;
               properties =
                 (case unwrapped of
                    ObjectType _ props \<Rightarrow> Some props
                  | ResourceType _ props \<Rightarrow>
                      Some (props @ [(''id'', Primitive StringType), (''urn'', Primitive StringType)])
                  | _ \<Rightarrow> None)
           in if isInvalidType unwrapped then (unwrapped, [])
              else
                case properties of
                  None \<Rightarrow>
                    (let summary = ''cannot access a property on '' @ [CHR 0x27] @ runningName @
                                   [CHR 0x27] @ '' (type '' @
                                   displayType (typeString lib) unwrapped @ '')'';
                         detail = ''Property access is only allowed on Resources and Objects''
                     in (mk summary detail, [(summary, detail)]))
                | Some props \<Rightarrow>
                    (case Property props name of
                       None \<Rightarrow>
                         (let (summary, detail) =
                                MessageWithDetail lib runningName (remdups (map fst props)) 5 True
                                  name name
                          in (mk summary detail, [(summary, detail)]))
                     | Some newType \<Rightarrow>
                         typePropertyAccess lib mk newType (runningName @ ''.'' @ name) rest))
      | PropertySubscript index \<Rightarrow>
          (let unwrapped = UnwrapType root;
               err = (\<lambda>typ msg.
                    (let summary = ''Cannot index'' @ typ @ '' into '' @ [CHR 0x27] @ runningName @
                                   [CHR 0x27] @ '' (type '' @
                                   displayType (typeString lib) unwrapped @ '')''
                     in (mk summary msg, [(summary, msg)])))
           in case unwrapped of
                ArrayType elementType \<Rightarrow>
                  (case index of
                     IndexString _ \<Rightarrow> err '' via string'' ''Index via string is only allowed on Maps''
                   | IndexInt i \<Rightarrow>
                       typePropertyAccess lib mk elementType
                         (runningName @ ''['' @ showInt i @ '']'') rest)
              | MapType elementType \<Rightarrow>
                  (case index of
                     IndexInt _ \<Rightarrow> err '' via number'' ''Index via number is only allowed on Arrays''
                   | IndexString k \<Rightarrow>
                       typePropertyAccess lib mk elementType
                         (runningName @ ''['' @ quote lib k @ '']'') rest)
              | InvalidType _ \<Rightarrow> (InvalidType [], [])
              | _ \<Rightarrow> err [] ''Index property access is only allowed on Maps and Lists''))))"
  by pat_completeness auto

termination
  by (relation "measures [\<lambda>(lib, mk, root, rn, acc). length acc,
                          \<lambda>(lib, mk, root, rn, acc). size root]")
     (auto simp: asUnionType_Some size_elem_in_list)

declare typePropertyAccess.simps [simp del]

section \<open>Expressions and the type cache\<close>

text \<open>
  The expressions of the package \<^verbatim>\<open>ast\<close>, with what the checker reads of them. The
  type cache is keyed by the pointer to an expression; the first argument of every
  constructor stands for that pointer. A symbol holds its root name and the accessors
  that follow it; an invoke holds its token, its call arguments (an object expression or
  nil) and its return name (or nil); a builtin holds its arguments.
\<close>

datatype expr =
    NullExpr nat
  | BooleanExpr nat bool
  | NumberExpr nat
  | StringExpr nat string
  | InterpolateExpr nat
  | SymbolExpr nat string "propertyAccessor list"
  | ListExpr nat "expr list"
  | ObjectExpr nat "(expr \<times> expr) list"
  | InvokeExpr nat string "(expr \<times> expr) list option" "string option"
  | JoinExpr nat expr expr
  | SplitExpr nat expr expr
  | SelectExpr nat expr expr
  | ToJSONExpr nat expr
  | ToBase64Expr nat expr
  | FromBase64Expr nat expr
  | SecretExpr nat expr
  | ReadFileExpr nat expr
  | StringAssetExpr nat expr
  | FileAssetExpr nat expr
  | RemoteAssetExpr nat expr
  | AssetArchiveExpr nat expr
  | FileArchiveExpr nat expr
  | RemoteArchiveExpr nat expr

fun exprId :: "expr \<Rightarrow> nat" where
  "exprId (NullExpr i) = i"
| "exprId (BooleanExpr i _) = i"
| "exprId (NumberExpr i) = i"
| "exprId (StringExpr i _) = i"
| "exprId (InterpolateExpr i) = i"
| "exprId (SymbolExpr i _ _) = i"
| "exprId (ListExpr i _) = i"
| "exprId (ObjectExpr i _) = i"
| "exprId (InvokeExpr i _ _ _) = i"
| "exprId (JoinExpr i _ _) = i"
| "exprId (SplitExpr i _ _) = i"
| "exprId (SelectExpr i _ _) = i"
| "exprId (ToJSONExpr i _) = i"
| "exprId (ToBase64Expr i _) = i"
| "exprId (FromBase64Expr i _) = i"
| "exprId (SecretExpr i _) = i"
| "exprId (ReadFileExpr i _) = i"
| "exprId (StringAssetExpr i _) = i"
| "exprId (FileAssetExpr i _) = i"
| "exprId (RemoteAssetExpr i _) = i"
| "exprId (AssetArchiveExpr i _) = i"
| "exprId (FileArchiveExpr i _) = i"
| "exprId (RemoteArchiveExpr i _) = i"

text \<open>The name of the Go type of an expression, as \<^verbatim>\<open>%T\<close> prints it.\<close>

fun exprTypeName :: "expr \<Rightarrow> string" where
  "exprTypeName (NullExpr _) = ''*ast.NullExpr''"
| "exprTypeName (BooleanExpr _ _) = ''*ast.BooleanExpr''"
| "exprTypeName (NumberExpr _) = ''*ast.NumberExpr''"
| "exprTypeName (StringExpr _ _) = ''*ast.StringExpr''"
| "exprTypeName (InterpolateExpr _) = ''*ast.InterpolateExpr''"
| "exprTypeName (SymbolExpr _ _ _) = ''*ast.SymbolExpr''"
| "exprTypeName (ListExpr _ _) = ''*ast.ListExpr''"
| "exprTypeName (ObjectExpr _ _) = ''*ast.ObjectExpr''"
| "exprTypeName (InvokeExpr _ _ _ _) = ''*ast.InvokeExpr''"
| "exprTypeName (JoinExpr _ _ _) = ''*ast.JoinExpr''"
| "exprTypeName (SplitExpr _ _ _) = ''*ast.SplitExpr''"
| "exprTypeName (SelectExpr _ _ _) = ''*ast.SelectExpr''"
| "exprTypeName (ToJSONExpr _ _) = ''*ast.ToJSONExpr''"
| "exprTypeName (ToBase64Expr _ _) = ''*ast.ToBase64Expr''"
| "exprTypeName (FromBase64Expr _ _) = ''*ast.FromBase64Expr''"
| "exprTypeName (SecretExpr _ _) = ''*ast.SecretExpr''"
| "exprTypeName (ReadFileExpr _ _) = ''*ast.ReadFileExpr''"
| "exprTypeName (StringAssetExpr _ _) = ''*ast.StringAssetExpr''"
| "exprTypeName (FileAssetExpr _ _) = ''*ast.FileAssetExpr''"
| "exprTypeName (RemoteAssetExpr _ _) = ''*ast.RemoteAssetExpr''"
| "exprTypeName (AssetArchiveExpr _ _) = ''*ast.AssetArchiveExpr''"
| "exprTypeName (FileArchiveExpr _ _) = ''*ast.FileArchiveExpr''"
| "exprTypeName (RemoteArchiveExpr _ _) = ''*ast.RemoteArchiveExpr''"

text \<open>
  \<^verbatim>\<open>typeCache\<close>. Resource declarations are keyed by pointer as well, a number here.
  Reading a Go map at a key it does not hold gives the zero value, the nil interface.
\<close>

record typeCache =
  resources :: "nat \<Rightarrow> typeValue option"
  configuration :: "string \<Rightarrow> typeValue option"
  outputs :: "string \<Rightarrow> typeValue option"
  exprs :: "nat \<Rightarrow> typeValue option"
  resourceNames :: "string \<Rightarrow> nat option"
  variableNames :: "string \<Rightarrow> nat option"

definition lookup :: "('k \<Rightarrow> typeValue option) \<Rightarrow> 'k \<Rightarrow> typeValue" where
  "lookup m k = (case m k of None \<Rightarrow> NilInterface | Some v \<Rightarrow> v)"

definition setExpr :: "typeCache \<Rightarrow> nat \<Rightarrow> typeValue \<Rightarrow> typeCache" where
  "setExpr tc i t = tc\<lparr>exprs := (exprs tc)(i \<mapsto> t)\<rparr>"

text \<open>\<^verbatim>\<open>TypeExpr\<close>, the query of the interface \<^verbatim>\<open>Typing\<close>.\<close>

definition TypeExpr :: "typeCache \<Rightarrow> expr \<Rightarrow> typeValue" where
  "TypeExpr tc e = lookup (exprs tc) (exprId e)"

text \<open>\<^verbatim>\<open>registerResource\<close> and \<^verbatim>\<open>typeVariable\<close>.\<close>

definition registerResource :: "typeCache \<Rightarrow> string \<Rightarrow> nat \<Rightarrow> typeValue \<Rightarrow> typeCache" where
  "registerResource tc name resource typ =
     tc\<lparr>resourceNames := (resourceNames tc)(name \<mapsto> resource),
        resources := (resources tc)(resource \<mapsto> typ)\<rparr>"

definition typeVariable :: "typeCache \<Rightarrow> string \<Rightarrow> expr \<Rightarrow> bool \<times> typeCache" where
  "typeVariable tc k v = (True, tc\<lparr>variableNames := (variableNames tc)(k \<mapsto> exprId v)\<rparr>)"

section \<open>Typing expressions\<close>

text \<open>The key of an object entry as a string expression, as \<^verbatim>\<open>Key.(*ast.StringExpr)\<close>.\<close>

fun asStringExpr :: "expr \<Rightarrow> goPanic + string" where
  "asStringExpr (StringExpr _ v) = Inr v"
| "asStringExpr e = Inl (TypeAssertionFailed (exprTypeName e))"

text \<open>
  The loop of \<^verbatim>\<open>typeInvoke\<close> over the call arguments: an argument the function does
  not have is an error diagnostic; the value of any other gets the type of the input.
\<close>

fun typeCallArgs ::
  "goLibrary \<Rightarrow> string \<Rightarrow> (string \<times> schemaType) list \<Rightarrow> (expr \<times> expr) list \<Rightarrow>
   typeCache \<Rightarrow> evalContext \<Rightarrow> goPanic + (typeCache \<times> evalContext)" where
  "typeCallArgs lib functionName inputs [] tc ctx = Inr (tc, ctx)"
| "typeCallArgs lib functionName inputs ((key, val) # entries) tc ctx =
     (case asStringExpr key of
        Inl p \<Rightarrow> Inl p
      | Inr k \<Rightarrow>
          (case Property inputs k of
             None \<Rightarrow>
               (let (summary, detail) =
                      MessageWithDetail lib (''Invoke '' @ functionName) (map fst inputs) 5 False k k
                in typeCallArgs lib functionName inputs entries tc
                     (addDiag ctx (Diagnostic DiagError summary detail)))
           | Some typ \<Rightarrow>
               typeCallArgs lib functionName inputs entries (setExpr tc (exprId val) (Typ typ)) ctx))"

text \<open>
  \<^verbatim>\<open>typeInvoke\<close>, on the pointer, token, call arguments and return name of the invoke
  expression.
\<close>

definition typeInvoke ::
  "goLibrary \<Rightarrow> typeCache \<Rightarrow> evalContext \<Rightarrow> nat \<Rightarrow> string \<Rightarrow> (expr \<times> expr) list option \<Rightarrow>
   string option \<Rightarrow> goPanic + (bool \<times> typeCache \<times> evalContext)" where
  "typeInvoke lib tc ctx t token callArgs return =
     (case ResolveFunction (pkgLoader ctx) token of
        Inl err \<Rightarrow>
          (let (b, ctx') = ctx_error ctx (errorString lib err) in Inr (b, tc, ctx'))
      | Inr (pkg, functionName) \<Rightarrow>
          (let hint = Package_FunctionTypeHint pkg functionName;
               inputs = (case fn_Inputs hint of None \<Rightarrow> [] | Some props \<Rightarrow> props)
           in case typeCallArgs lib functionName inputs
                     (case callArgs of None \<Rightarrow> [] | Some entries \<Rightarrow> entries) tc ctx of
                Inl p \<Rightarrow> Inl p
              | Inr (tc1, ctx1) \<Rightarrow>
                  (case return of
                     Some returnName \<Rightarrow>
                       (let outputs = (case fn_Outputs hint of None \<Rightarrow> [] | Some (_, props) \<Rightarrow> props);
                            fields = map fst outputs;
                            matching = filter (\<lambda>(name, typ). ToLower lib returnName = ToLower lib name)
                                         outputs
                        in if fn_Outputs hint = None \<or> matching = [] then
                             (let (summary, detail) =
                                    MessageWithDetail lib token fields 5 True returnName returnName
                              in Inr (True, tc1, addDiag ctx1 (Diagnostic DiagError summary detail)))
                           else Inr (True, setExpr tc1 t (Typ (snd (last matching))), ctx1))
                   | None \<Rightarrow>
                       Inr (True,
                            setExpr tc1 t
                              (case fn_Outputs hint of
                                 None \<Rightarrow> NilObjectPointer
                               | Some (outToken, props) \<Rightarrow> Typ (ObjectType outToken props)),
                            ctx1))))"

text \<open>
  \<^verbatim>\<open>typeSymbol\<close>. Its \<^verbatim>\<open>setError\<close> adds an error diagnostic to the context and gives
  an invalid type that carries it. With a nil root, \<^verbatim>\<open>typePropertyAccess\<close> returns
  it when there is no accessor, and otherwise dereferences it to render its type.
\<close>

definition typeSymbol ::
  "goLibrary \<Rightarrow> typeCache \<Rightarrow> evalContext \<Rightarrow> nat \<Rightarrow> string \<Rightarrow> propertyAccessor list \<Rightarrow>
   goPanic + (bool \<times> typeCache \<times> evalContext)" where
  "typeSymbol lib tc ctx t rootName accessors =
     (let typ = Typ (InvalidType []);
          typ = (case resourceNames tc rootName of
                   Some root \<Rightarrow> lookup (resources tc) root | None \<Rightarrow> typ);
          typ = (case variableNames tc rootName of
                   Some root \<Rightarrow> lookup (exprs tc) root | None \<Rightarrow> typ);
          typ = (case configuration tc rootName of
                   Some root \<Rightarrow> root | None \<Rightarrow> typ);
          runningName = rootName
      in case typ of
           Typ root \<Rightarrow>
             (let (result, calls) =
                    typePropertyAccess lib
                      (\<lambda>summary detail. InvalidType [Diagnostic DiagError summary detail])
                      root runningName accessors;
                  ctx' = foldl (\<lambda>c (summary, detail). addDiag c (Diagnostic DiagError summary detail))
                           ctx calls
              in Inr (True, setExpr tc t (Typ result), ctx'))
         | nilRoot \<Rightarrow>
             if length accessors = 0 then Inr (True, setExpr tc t nilRoot, ctx)
             else Inl NilDereference)"

text \<open>The types of the elements of a list or of the entries of an object.\<close>

fun elementTypes :: "typeValue list \<Rightarrow> goPanic + schemaType list" where
  "elementTypes [] = Inr []"
| "elementTypes (Typ t # vs) =
     (case elementTypes vs of Inl p \<Rightarrow> Inl p | Inr ts \<Rightarrow> Inr (t # ts))"
| "elementTypes (_ # vs) = Inl NilElementType"

fun objectProperties ::
  "typeCache \<Rightarrow> (expr \<times> expr) list \<Rightarrow> goPanic + (string \<times> schemaType) list" where
  "objectProperties tc [] = Inr []"
| "objectProperties tc ((key, v) # entries) =
     (case asStringExpr key of
        Inl p \<Rightarrow> Inl p
      | Inr k \<Rightarrow>
          (case lookup (exprs tc) (exprId v) of
             Typ t \<Rightarrow>
               (case objectProperties tc entries of
                  Inl p \<Rightarrow> Inl p
                | Inr props \<Rightarrow> Inr ((k, t) # props))
           | _ \<Rightarrow> Inl NilElementType))"

text \<open>Two or more assertions in a row: the first panic ends the visit.\<close>

definition thenAssert ::
  "goPanic + evalContext \<Rightarrow> (evalContext \<Rightarrow> goPanic + evalContext) \<Rightarrow> goPanic + evalContext" where
  "thenAssert r f = (case r of Inl p \<Rightarrow> Inl p | Inr ctx \<Rightarrow> f ctx)"

text \<open>
  \<^verbatim>\<open>typeExpr\<close>, the visitor of the type checker: it records the type of the
  expression in the cache. The children of the expression have been visited before.
\<close>

fun typeExpr ::
  "goLibrary \<Rightarrow> typeCache \<Rightarrow> evalContext \<Rightarrow> expr \<Rightarrow> goPanic + (bool \<times> typeCache \<times> evalContext)" where
  "typeExpr lib tc ctx (InvokeExpr t token callArgs return) =
     typeInvoke lib tc ctx t token callArgs return"
| "typeExpr lib tc ctx (SymbolExpr t rootName accessors) =
     typeSymbol lib tc ctx t rootName accessors"
| "typeExpr lib tc ctx (StringExpr t _) =
     Inr (True, setExpr tc t (Typ (Primitive StringType)), ctx)"
| "typeExpr lib tc ctx (NumberExpr t) =
     Inr (True, setExpr tc t (Typ (Primitive NumberType)), ctx)"
| "typeExpr lib tc ctx (BooleanExpr t _) =
     Inr (True, setExpr tc t (Typ (Primitive BoolType)), ctx)"
| "typeExpr lib tc ctx (AssetArchiveExpr t _) =
     Inr (True, setExpr tc t (Typ (Primitive ArchiveType)), ctx)"
| "typeExpr lib tc ctx (FileArchiveExpr t _) =
     Inr (True, setExpr tc t (Typ (Primitive ArchiveType)), ctx)"
| "typeExpr lib tc ctx (RemoteArchiveExpr t _) =
     Inr (True, setExpr tc t (Typ (Primitive ArchiveType)), ctx)"
| "typeExpr lib tc ctx (FileAssetExpr t _) =
     Inr (True, setExpr tc t (Typ (Primitive AssetType)), ctx)"
| "typeExpr lib tc ctx (RemoteAssetExpr t _) =
     Inr (True, setExpr tc t (Typ (Primitive AssetType)), ctx)"
| "typeExpr lib tc ctx (StringAssetExpr t _) =
     Inr (True, setExpr tc t (Typ (Primitive AssetType)), ctx)"
| "typeExpr lib tc ctx (InterpolateExpr t) =
     Inr (True, setExpr tc t (Typ (Primitive StringType)), ctx)"
| "typeExpr lib tc ctx (ToJSONExpr t _) =
     Inr (True, setExpr tc t (Typ (Primitive StringType)), ctx)"
| "typeExpr lib tc ctx (JoinExpr t delimiter values) =
     (case assertTypeAssignable lib ctx (lookup (exprs tc) (exprId delimiter))
             (Typ (Primitive StringType)) of
        Inl p \<Rightarrow> Inl p
      | Inr ctx' \<Rightarrow> Inr (True, setExpr tc t (Typ (Primitive StringType)), ctx'))"
| "typeExpr lib tc ctx (ListExpr t elements) =
     (case elementTypes (map (\<lambda>typ. lookup (exprs tc) (exprId typ)) elements) of
        Inl p \<Rightarrow> Inl p
      | Inr types \<Rightarrow>
          (let typeList = mapKeys lib types;
               elementType =
                 (if length typeList = 0 then InvalidType []
                  else if length typeList = 1 then typeList ! 0
                  else UnionType typeList)
           in Inr (True, setExpr tc t (Typ (ArrayType elementType)), ctx)))"
| "typeExpr lib tc ctx (ObjectExpr t entries) =
     (case objectProperties tc entries of
        Inl p \<Rightarrow> Inl p
      | Inr properties \<Rightarrow>
          Inr (True,
               setExpr tc t
                 (Typ (ObjectType
                         (adhockObjectToken @ Join (map fst properties) [CHR 0xE2, CHR 0x80, CHR 0xA2])
                         properties)),
               ctx))"
| "typeExpr lib tc ctx (NullExpr t) =
     Inr (True, setExpr tc t (Typ (InvalidType [])), ctx)"
| "typeExpr lib tc ctx (SecretExpr t v) =
     Inr (True, setExpr tc t (lookup (exprs tc) (exprId v)), ctx)"
| "typeExpr lib tc ctx (SplitExpr t delimiter source) =
     (case thenAssert
             (assertTypeAssignable lib ctx (lookup (exprs tc) (exprId delimiter))
                (Typ (Primitive StringType)))
             (\<lambda>ctx. assertTypeAssignable lib ctx (lookup (exprs tc) (exprId source))
                (Typ (Primitive StringType))) of
        Inl p \<Rightarrow> Inl p
      | Inr ctx' \<Rightarrow> Inr (True, setExpr tc t (Typ (ArrayType (Primitive StringType))), ctx'))"
| "typeExpr lib tc ctx (SelectExpr t index values) =
     (case thenAssert
             (assertTypeAssignable lib ctx (lookup (exprs tc) (exprId index))
                (Typ (Primitive IntType)))
             (\<lambda>ctx. assertTypeAssignable lib ctx (lookup (exprs tc) (exprId values))
                (Typ (ArrayType (Primitive AnyType)))) of
        Inl p \<Rightarrow> Inl p
      | Inr ctx' \<Rightarrow>
          (case exprs tc (exprId values) of
             Some valuesType \<Rightarrow>
               (case (case valuesType of Typ vt \<Rightarrow> asArrayType (UnwrapType vt) | _ \<Rightarrow> None) of
                  Some elementType \<Rightarrow> Inr (True, setExpr tc t (Typ elementType), ctx')
                | None \<Rightarrow>
                    Inr (True,
                         setExpr tc t
                           (Typ (InvalidType
                              [Diagnostic DiagInvalid
                                 (''Could not derive types from array, since a '' @
                                  ''*schema.ArrayType'' @ '' was found instead'') []])),
                         ctx'))
           | None \<Rightarrow>
               Inr (True,
                    setExpr tc t
                      (Typ (InvalidType
                         [Diagnostic DiagInvalid
                            (''Could not derive types from array, since a '' @
                             exprTypeName values @ '' was found instead'') []])),
                    ctx')))"
| "typeExpr lib tc ctx e =
     Inr (True,
          setExpr tc (exprId e)
            (Typ (InvalidType [Diagnostic DiagInvalid (''Hit unknown type: '' @ exprTypeName e) []])),
          ctx)"

text \<open>
  Modelled from the spec: the types of a configuration parameter. The package
  \<^verbatim>\<open>config\<close>, with the types and their parser, is not among the sources; by section 3 a
  declared type is one of \<open>string\<close>, \<open>integer\<close>, \<open>number\<close>, \<open>boolean\<close> and \<open>array<T>\<close>.
  The parser is the parameter \<open>parse\<close> of \<open>typeConfig\<close>.
\<close>

datatype configType = CString | CInt | CNumber | CBoolean | CList configType

text \<open>\<^verbatim>\<open>configTypeToSchema\<close>: any type it does not list is a panic.\<close>

fun configTypeToSchema :: "configType \<Rightarrow> goPanic + schemaType" where
  "configTypeToSchema CString = Inr (Primitive StringType)"
| "configTypeToSchema CBoolean = Inr (Primitive BoolType)"
| "configTypeToSchema CNumber = Inr (Primitive NumberType)"
| "configTypeToSchema (CList e) =
     (case configTypeToSchema e of Inl p \<Rightarrow> Inl p | Inr t \<Rightarrow> Inr (ArrayType t))"
| "configTypeToSchema _ = Inl (Panic ''Unexpected config type'')"

text \<open>
  \<^verbatim>\<open>typeConfig\<close>, on the name of the parameter, its default expression and its
  declared type, either of which may be absent.
\<close>

definition typeConfig ::
  "(string \<Rightarrow> configType option) \<Rightarrow> typeCache \<Rightarrow> string \<Rightarrow> expr option \<Rightarrow> string option \<Rightarrow>
   goPanic + (bool \<times> typeCache)" where
  "typeConfig parse tc k dflt declared =
     (let typ = Inr (Typ (InvalidType []));
          typ = (case dflt of
                   Some d \<Rightarrow> Inr (lookup (exprs tc) (exprId d))
                 | None \<Rightarrow>
                     (case declared of
                        Some typeName \<Rightarrow>
                          (case parse typeName of
                             Some ctype \<Rightarrow>
                               (case configTypeToSchema ctype of
                                  Inl p \<Rightarrow> Inl p | Inr t \<Rightarrow> Inr (Typ t))
                           | None \<Rightarrow> typ)
                      | None \<Rightarrow> typ))
      in case typ of
           Inl p \<Rightarrow> Inl p
         | Inr t \<Rightarrow> Inr (True, tc\<lparr>configuration := (configuration tc)(k \<mapsto> t)\<rparr>))"




section \<open>Types for which assignability is reflexive\<close>

text \<open>
  A type accepts every type when, under optional and input wrappers, it is \<open>any\<close>, an
  invalid type, a union type with an alternative that accepts every type, or an enum or
  token type over a type that accepts every type. These are the targets of which
  \<open>isAssignable\<close> accepts whatever the source is.
\<close>

fun acceptsEveryType :: "schemaType \<Rightarrow> bool" where
  "acceptsEveryType (Primitive p) = (p = AnyType)"
| "acceptsEveryType (InvalidType _) = True"
| "acceptsEveryType (OptionalType t) = acceptsEveryType t"
| "acceptsEveryType (InputType t) = acceptsEveryType t"
| "acceptsEveryType (MapType _) = False"
| "acceptsEveryType (ArrayType _) = False"
| "acceptsEveryType (EnumType _ e) = acceptsEveryType e"
| "acceptsEveryType (UnionType ts) = (\<exists>t \<in> set ts. acceptsEveryType t)"
| "acceptsEveryType (ObjectType _ _) = False"
| "acceptsEveryType (ResourceType _ _) = False"
| "acceptsEveryType (TokenType _ None) = False"
| "acceptsEveryType (TokenType _ (Some u)) = acceptsEveryType u"

text \<open>
  The types on which reflexivity is proved. Among the components that \<open>isAssignable\<close>
  reads when a type is assigned to itself (the elements of maps and arrays, the
  alternatives of unions and the properties of objects, not the properties of a resource
  type), every enum type has an element type that accepts every type, every token type
  has an underlying type that accepts every type, and no object type has two properties
  of one name.
\<close>

fun selfAssignable :: "schemaType \<Rightarrow> bool" where
  "selfAssignable (Primitive _) = True"
| "selfAssignable (InvalidType _) = True"
| "selfAssignable (OptionalType t) = selfAssignable t"
| "selfAssignable (InputType t) = selfAssignable t"
| "selfAssignable (MapType t) = selfAssignable t"
| "selfAssignable (ArrayType t) = selfAssignable t"
| "selfAssignable (EnumType _ e) = acceptsEveryType e"
| "selfAssignable (UnionType ts) = (\<forall>t \<in> set ts. selfAssignable t)"
| "selfAssignable (ObjectType _ props) =
     (distinct (map fst props) \<and> (\<forall>(n, t) \<in> set props. selfAssignable t))"
| "selfAssignable (ResourceType _ _) = True"
| "selfAssignable (TokenType _ None) = False"
| "selfAssignable (TokenType _ (Some u)) = acceptsEveryType u"

text \<open>
  \<open>reach t to\<close>: the type \<open>t\<close> is \<open>to\<close>, or an alternative of the union \<open>to\<close>, or
  an alternative of such an alternative, and so on, up to optional and input wrappers.
\<close>

inductive reach :: "schemaType \<Rightarrow> schemaType \<Rightarrow> bool" for t :: schemaType where
  reach_same: "UnwrapType t = UnwrapType to \<Longrightarrow> reach t to"
| reach_union: "UnwrapType to = UnionType es \<Longrightarrow> e \<in> set es \<Longrightarrow> reach t e \<Longrightarrow> reach t to"


section \<open>The order of resolution as the specification words it\<close>

text \<open>
  The specification says that \<open>resolveResource\<close> tries the token verbatim, then the form
  \<^verbatim>\<open>pkg:index:Name\<close>, then the legacy form \<^verbatim>\<open>pkg:mod/lowerName:Name\<close>. These are the
  forms in that order: a token of two parts \<^verbatim>\<open>pkg:Name\<close> has the index form, and its
  legacy form is that of \<^verbatim>\<open>pkg:index:Name\<close>; a token of three parts is of the form
  \<^verbatim>\<open>pkg:mod:Name\<close> already. \<open>firstFound\<close> is the first of them that the table
  holds.
\<close>

fun firstFound :: "(string \<Rightarrow> string option) \<Rightarrow> string list \<Rightarrow> string option" where
  "firstFound table [] = None"
| "firstFound table (c # cs) = (case table c of Some r \<Rightarrow> Some r | None \<Rightarrow> firstFound table cs)"

definition specCandidates :: "(string \<Rightarrow> string) \<Rightarrow> string \<Rightarrow> string list" where
  "specCandidates toLowerCamel typeName =
     (case Split typeName '':'' of
        [pkg, name] \<Rightarrow>
          [typeName, pkg @ '':index:'' @ name,
           pkg @ '':index/'' @ toLowerCamel name @ '':'' @ name]
      | [pkg, module, name] \<Rightarrow>
          [typeName, pkg @ '':'' @ module @ ''/'' @ toLowerCamel name @ '':'' @ name]
      | _ \<Rightarrow> [])"

section \<open>The built-in functions of the evaluator\<close>

text \<open>
  Modelled from the spec: the evaluator, with \<^verbatim>\<open>evaluateBuiltinJoin\<close>,
  \<^verbatim>\<open>evaluateBuiltinSplit\<close>, \<^verbatim>\<open>evaluateBuiltinToBase64\<close> and
  \<^verbatim>\<open>evaluateBuiltinFromBase64\<close>, is not among the sources; its tests are. By section 3
  a plain value is a boolean, a number, a string, a list or a map (assets and archives
  are left out, and a number is an integer here: the built-ins below read of a value only
  whether it is a string or a list). Eventual values are left out as well: by section
  4.F a built-in on eventual values gives the eventual of its result on plain ones.
\<close>

datatype plainValue =
    PNull | PBool bool | PNumber int | PString string
  | PList "plainValue list" | PMap "(string \<times> plainValue) list"

text \<open>The name of the type of a value in an error message.\<close>

fun valueTypeName :: "plainValue \<Rightarrow> string" where
  "valueTypeName PNull = ''null''"
| "valueTypeName (PBool _) = ''boolean''"
| "valueTypeName (PNumber _) = ''number''"
| "valueTypeName (PString _) = ''string''"
| "valueTypeName (PList _) = ''list''"
| "valueTypeName (PMap _) = ''object''"

fun asString :: "plainValue \<Rightarrow> string option" where
  "asString (PString s) = Some s"
| "asString _ = None"

datatype evalError = EvalError string

text \<open>
  Modelled from the spec: \<open>split(delim, source)\<close>: both strings; the result is a list of
  strings; a source of empty string yields a single-element list containing the empty
  string. The tests fix the result to that of Go's \<^verbatim>\<open>strings.Split\<close>.
\<close>

definition evaluateBuiltinSplit :: "plainValue \<Rightarrow> plainValue \<Rightarrow> evalError list + plainValue" where
  "evaluateBuiltinSplit delimiter source =
     (case (asString delimiter, asString source) of
        (Some d, Some s) \<Rightarrow> Inr (PList (map PString (Split s d)))
      | (None, _) \<Rightarrow> Inl [EvalError (''delimiter must be a string, not '' @ valueTypeName delimiter)]
      | (_, None) \<Rightarrow> Inl [EvalError (''source must be a string, not '' @ valueTypeName source)])"

text \<open>
  Modelled from the spec: \<open>join(delim, values)\<close>: \<open>delim\<close> must be a string and
  \<open>values\<close> a list of strings, otherwise it fails per element with an error naming the
  offending index; the result is the concatenation of the strings with the delimiter
  between them, as the tests have it.
\<close>

fun joinErrors :: "nat \<Rightarrow> plainValue list \<Rightarrow> evalError list" where
  "joinErrors i [] = []"
| "joinErrors i (v # vs) =
     (case asString v of
        Some _ \<Rightarrow> joinErrors (Suc i) vs
      | None \<Rightarrow>
          EvalError (''the second argument to fn::join must be a list of strings, found '' @
                     valueTypeName v @ '' at index '' @ showNat i) # joinErrors (Suc i) vs)"

definition evaluateBuiltinJoin :: "plainValue \<Rightarrow> plainValue \<Rightarrow> evalError list + plainValue" where
  "evaluateBuiltinJoin delimiter values =
     (case asString delimiter of
        None \<Rightarrow> Inl [EvalError (''delimiter must be a string, not '' @ valueTypeName delimiter)]
      | Some d \<Rightarrow>
          (case values of
             PList vs \<Rightarrow>
               if joinErrors 0 vs = [] then Inr (PString (Join (somes (map asString vs)) d))
               else Inl (joinErrors 0 vs)
           | _ \<Rightarrow> Inl [EvalError (''the second argument to fn::join must be a list, found '' @
                                    valueTypeName values)]))"

text \<open>
  Modelled from the spec: \<open>toBase64(string)\<close> gives a string and \<open>fromBase64(string)\<close>
  a string that must also be valid UTF-8. Base64 is that of \<^verbatim>\<open>base64.StdEncoding\<close> of
  Go's library, which the tests of the evaluator name: the standard alphabet, with
  padding. Three bytes give four characters of six bits each, and a last group of one or
  two bytes is padded with \<^verbatim>\<open>=\<close>.
\<close>

definition alphabet :: string where
  "alphabet = ''ABCDEFGHIJKLMNOPQRSTUVWXYZabcdefghijklmnopqrstuvwxyz0123456789+/''"

fun indexOf :: "'a \<Rightarrow> 'a list \<Rightarrow> nat" where
  "indexOf x [] = 0"
| "indexOf x (y # ys) = (if x = y then 0 else Suc (indexOf x ys))"

definition enc :: "nat \<Rightarrow> char" where
  "enc n = alphabet ! n"

definition dec :: "char \<Rightarrow> nat option" where
  "dec c = (if c \<in> set alphabet then Some (indexOf c alphabet) else None)"

fun EncodeToString :: "string \<Rightarrow> string" where
  "EncodeToString [] = []"
| "EncodeToString [a] =
     (let x = byte a in [enc (x div 4), enc ((x mod 4) * 16), CHR ''='', CHR ''=''])"
| "EncodeToString [a, b] =
     (let x = byte a; y = byte b
      in [enc (x div 4), enc ((x mod 4) * 16 + y div 16), enc ((y mod 16) * 4), CHR ''=''])"
| "EncodeToString (a # b # c # rest) =
     (let x = byte a; y = byte b; z = byte c
      in [enc (x div 4), enc ((x mod 4) * 16 + y div 16), enc ((y mod 16) * 4 + z div 64),
          enc (z mod 64)] @ EncodeToString rest)"

text \<open>
  The decoder of \<^verbatim>\<open>base64.StdEncoding\<close> is not strict. It passes over carriage returns
  and line feeds wherever they stand. What is left must be groups of four characters:
  four of the alphabet, or, in the last group only, two of the alphabet and two padding
  characters, or three and one; nothing may follow the padding, and input that ends
  inside a group is an error. Of a padded group it takes the one or two bytes encoded
  and does not look at the bits that are left over. \<open>decodeQuanta\<close> decodes the groups
  of an input without line breaks; \<open>None\<close> is the error of the decoder.
\<close>

definition isLineBreak :: "char \<Rightarrow> bool" where
  "isLineBreak c = (c = CHR 0x0A \<or> c = CHR 0x0D)"

fun decodeQuanta :: "string \<Rightarrow> string option" where
  "decodeQuanta [] = Some []"
| "decodeQuanta (w # x # y # z # rest) =
     (case (dec w, dec x) of
        (Some a, Some b) \<Rightarrow>
          if y = CHR ''='' then
            (if z = CHR ''='' \<and> rest = [] then Some [char_of (a * 4 + b div 16)] else None)
          else
            (case dec y of
               None \<Rightarrow> None
             | Some c \<Rightarrow>
                 if z = CHR ''='' then
                   (if rest = []
                    then Some [char_of (a * 4 + b div 16), char_of ((b mod 16) * 16 + c div 4)]
                    else None)
                 else
                   (case dec z of
                      None \<Rightarrow> None
                    | Some d \<Rightarrow>
                        map_option
                          (\<lambda>bs. [char_of (a * 4 + b div 16), char_of ((b mod 16) * 16 + c div 4),
                                 char_of ((c mod 4) * 64 + d)] @ bs)
                          (decodeQuanta rest)))
      | _ \<Rightarrow> None)"
| "decodeQuanta _ = None"

definition DecodeString :: "string \<Rightarrow> string option" where
  "DecodeString s = decodeQuanta (filter (\<lambda>c. \<not> isLineBreak c) s)"

text \<open>
  Modelled from the spec: the two built-ins take a string; the decoded bytes must be a
  valid UTF-8 string, and invalid UTF-8 is the error \<^verbatim>\<open>invalid UTF-8\<close> (scenario 6).
\<close>

definition evaluateBuiltinToBase64 :: "plainValue \<Rightarrow> evalError list + plainValue" where
  "evaluateBuiltinToBase64 v =
     (case asString v of
        None \<Rightarrow> Inl [EvalError (''expected argument to fn::toBase64 to be a string, got '' @
                               valueTypeName v)]
      | Some s \<Rightarrow> Inr (PString (EncodeToString s)))"

definition evaluateBuiltinFromBase64 :: "plainValue \<Rightarrow> evalError list + plainValue" where
  "evaluateBuiltinFromBase64 v =
     (case asString v of
        None \<Rightarrow> Inl [EvalError (''expected argument to fn::fromBase64 to be a string, got '' @
                               valueTypeName v)]
      | Some s \<Rightarrow>
          (case DecodeString s of
             None \<Rightarrow> Inl [EvalError ''fn::fromBase64 unable to decode'']
           | Some decoded \<Rightarrow>
               if ValidString decoded then Inr (PString decoded)
               else Inl [EvalError ''invalid UTF-8'']))"

section \<open>Canonical base64 strings\<close>

text \<open>
  A string is canonical when it holds no line break and, in a padded last group, no bit
  is set beyond the bytes encoded: the six bits of the character before \<^verbatim>\<open>==\<close> end
  with four zeros, and those of the character before a single \<^verbatim>\<open>=\<close> with two.
\<close>

fun paddingBitsZero :: "string \<Rightarrow> bool" where
  "paddingBitsZero (w # x # y # z # rest) =
     (if y = CHR ''='' then (case dec x of Some b \<Rightarrow> b mod 16 = 0 | None \<Rightarrow> False)
      else if z = CHR ''='' then (case dec y of Some c \<Rightarrow> c mod 4 = 0 | None \<Rightarrow> False)
      else paddingBitsZero rest)"
| "paddingBitsZero _ = True"

definition canonical :: "string \<Rightarrow> bool" where
  "canonical s = (filter isLineBreak s = [] \<and> paddingBitsZero s)"

section \<open>Verified properties\<close>

subsection \<open>Facts about \<open>isAssignable\<close> shared by the claims\<close>

lemma isAssignable_invalid_from: "isInvalidType (UnwrapType f) \<Longrightarrow> isAssignable str f t = None"
  by (subst isAssignable.simps) simp

lemma isAssignable_invalid_to: "isInvalidType (UnwrapType t) \<Longrightarrow> isAssignable str f t = None"
  by (subst isAssignable.simps) (simp add: Let_def)

lemma UnwrapType_idem: "UnwrapType (UnwrapType t) = UnwrapType t"
  by (induction t rule: UnwrapType.induct) auto

lemma isAssignable_unwrap: "isAssignable str f t = isAssignable str (UnwrapType f) (UnwrapType t)"
  by (subst isAssignable.simps, subst (2) isAssignable.simps) (simp add: UnwrapType_idem)

lemma isAssignable_primitive_to:
  "\<not> isInvalidType (UnwrapType f) \<Longrightarrow> asUnionType (UnwrapType f) = None \<Longrightarrow>
   UnwrapType t = Primitive p \<Longrightarrow>
   isAssignable str f t =
     (let from = UnwrapType f; fail = failReason str from (Primitive p) in
      case p of
        AnyType \<Rightarrow> None
      | NumberType \<Rightarrow> okIf fail (from = Primitive NumberType \<or> from = Primitive IntType)
      | IntType \<Rightarrow> okIf fail (from = Primitive NumberType \<or> from = Primitive IntType)
      | StringType \<Rightarrow> okIf fail (asResourceType from \<noteq> None \<or> from = Primitive StringType \<or>
                      from = Primitive NumberType \<or> from = Primitive IntType \<or> from = Primitive BoolType)
      | AssetType \<Rightarrow> okIf fail (from = Primitive AssetType \<or> from = Primitive ArchiveType)
      | _ \<Rightarrow> okIf fail (from = Primitive p))"
  by (subst isAssignable.simps) (simp add: Let_def okIf_def split: primitiveType.splits)

lemma isAssignable_resource_to:
  "\<not> isInvalidType (UnwrapType f) \<Longrightarrow> asUnionType (UnwrapType f) = None \<Longrightarrow>
   UnwrapType t = ResourceType tok ps \<Longrightarrow>
   isAssignable str f t =
     okIf (failReason str (UnwrapType f) (ResourceType tok ps))
       (case asResourceType (UnwrapType f) of Some (ftok, _) \<Rightarrow> tok = ftok | None \<Rightarrow> False)"
  by (subst isAssignable.simps) (simp add: Let_def okIf_def split: option.splits)

lemma somes_empty: "somes xs = [] \<longleftrightarrow> (\<forall>x \<in> set xs. x = None)"
  by (induction xs rule: somes.induct) auto

lemma isAssignable_union_from:
  "\<not> isInvalidType (UnwrapType t) \<Longrightarrow> UnwrapType f = UnionType es \<Longrightarrow>
   (isAssignable str f t = None) = (\<forall>e \<in> set es. isAssignable str e (UnwrapType t) = None)"
  by (subst isAssignable.simps) (auto simp add: Let_def somes_empty)

lemma selfAssignable_UnwrapType: "selfAssignable t \<Longrightarrow> selfAssignable (UnwrapType t)"
  by (induction t rule: UnwrapType.induct) auto

lemma acceptsEveryType_UnwrapType: "acceptsEveryType (UnwrapType t) = acceptsEveryType t"
  by (induction t rule: UnwrapType.induct) auto

lemma isAssignable_to_enum:
  "\<not> isInvalidType (UnwrapType f) \<Longrightarrow> asUnionType (UnwrapType f) = None \<Longrightarrow>
   UnwrapType t = EnumType a e \<Longrightarrow>
   (isAssignable str f t = None) = (isAssignable str (UnwrapType f) e = None)"
  by (subst isAssignable.simps) (simp add: Let_def okIf_def split: option.splits)

lemma isAssignable_to_token:
  "\<not> isInvalidType (UnwrapType f) \<Longrightarrow> asUnionType (UnwrapType f) = None \<Longrightarrow>
   UnwrapType t = TokenType a u \<Longrightarrow>
   (isAssignable str f t = None) =
     (case u of Some u' \<Rightarrow> isAssignable str (UnwrapType f) u' = None | None \<Rightarrow> False)"
  by (subst isAssignable.simps) (simp add: Let_def split: option.splits)

lemma reach_UnwrapType: "reach t to \<Longrightarrow> reach t (UnwrapType to)"
  by (induction rule: reach.induct) (auto intro: reach.intros simp: UnwrapType_idem)

lemma reach_member:
  "reach t to \<Longrightarrow> UnwrapType t = UnionType es \<Longrightarrow> x \<in> set es \<Longrightarrow> reach x to"
proof (induction rule: reach.induct)
  case (reach_same to)
  then show ?case by (metis reach.intros)
next
  case (reach_union to es' e)
  then show ?case by (metis reach.intros)
qed

lemma isAssignable_map_to_map:
  "UnwrapType f = MapType fe \<Longrightarrow> UnwrapType t = MapType te \<Longrightarrow>
   isAssignable str f t = okIfAssignable (failReason str (MapType fe) (MapType te)) (isAssignable str fe te)"
  by (subst isAssignable.simps) (simp add: Let_def)

lemma isAssignable_array_to_array:
  "UnwrapType f = ArrayType fe \<Longrightarrow> UnwrapType t = ArrayType te \<Longrightarrow>
   isAssignable str f t = okIfAssignable (failReason str (ArrayType fe) (ArrayType te)) (isAssignable str fe te)"
  by (subst isAssignable.simps) (simp add: Let_def)

lemma somes_map_empty: "somes (map g xs) = [] \<longleftrightarrow> (\<forall>x \<in> set xs. g x = None)"
  by (simp add: somes_empty)

lemma isAssignable_object_to_object:
  assumes "UnwrapType f = ObjectType ft fps" and "UnwrapType t = ObjectType tt tps"
  shows "(isAssignable str f t = None) =
   (\<forall>(n, ty) \<in> set tps. case Property fps n of
        None \<Rightarrow> \<not> IsRequired ty
      | Some fty \<Rightarrow> isAssignable str fty ty = None)"
proof -
  define g where "g = (\<lambda>(name, typ).
                       case Property fps name of
                         None \<Rightarrow>
                           if IsRequired typ
                           then Some (WithProperty
                                  (NotAssignable
                                     (''Missing required property '' @ [CHR 0x27] @ name @ [CHR 0x27])
                                     [] False []) name)
                           else None
                       | Some fromPropType \<Rightarrow>
                           map_option (\<lambda>notOk. WithProperty notOk name)
                             (isAssignable str fromPropType typ))"
  have "isAssignable str f t =
          (let failures = somes (map g tps)
           in if length failures > 0
              then Some (Because (failReason str (ObjectType ft fps) (ObjectType tt tps)) failures)
              else None)"
    using assms unfolding g_def by (subst isAssignable.simps) (simp add: Let_def)
  then have "(isAssignable str f t = None) = (somes (map g tps) = [])"
    by (simp add: Let_def)
  also have "\<dots> = (\<forall>x \<in> set tps. g x = None)"
    by (rule somes_map_empty)
  also have "\<dots> = (\<forall>(n, ty) \<in> set tps. case Property fps n of
        None \<Rightarrow> \<not> IsRequired ty
      | Some fty \<Rightarrow> isAssignable str fty ty = None)"
    unfolding g_def by (intro ball_cong refl) (auto split: option.splits)
  finally show ?thesis .
qed

lemma isAssignable_to_union:
  assumes "\<not> isInvalidType (UnwrapType f)" and "asUnionType (UnwrapType f) = None"
    and "UnwrapType t = UnionType es"
  shows "(isAssignable str f t = None) = (\<exists>e \<in> set es. isAssignable str (UnwrapType f) e = None)"
proof -
  have "isAssignable str f t =
          (let results = map (\<lambda>sub. isAssignable str (UnwrapType f) sub) es
           in if None \<in> set results then None
              else Some (Because (failReason str (UnwrapType f) (UnionType es)) (somes results)))"
    using assms by (subst isAssignable.simps) (simp add: Let_def)
  then have "(isAssignable str f t = None) = (None \<in> isAssignable str (UnwrapType f) ` set es)"
    by (simp add: Let_def)
  also have "\<dots> = (\<exists>e \<in> set es. isAssignable str (UnwrapType f) e = None)"
    by (metis (mono_tags, lifting) image_iff)
  finally show ?thesis .
qed

lemma UnwrapType_not_wrapper:
  "UnwrapType t \<noteq> OptionalType x" "UnwrapType t \<noteq> InputType x"
  by (induction t rule: UnwrapType.induct) auto

lemma Property_distinct:
  "distinct (map fst props) \<Longrightarrow> (n, t) \<in> set props \<Longrightarrow> Property props n = Some t"
  unfolding Property_def by (simp add: map_of_eq_Some_iff distinct_rev rev_map [symmetric])

lemma acceptsEveryType_accepts:
  "acceptsEveryType to \<Longrightarrow> isAssignable str f to = None"
proof (induction "size f + size to" arbitrary: f to rule: less_induct)
  case less
  define fu where "fu = UnwrapType f"
  define tu where "tu = UnwrapType to"
  have atu: "acceptsEveryType tu" using less.prems by (simp add: tu_def acceptsEveryType_UnwrapType)
  have szf: "size fu \<le> size f" by (simp add: fu_def size_UnwrapType)
  have szt: "size tu \<le> size to" by (simp add: tu_def size_UnwrapType)
  show ?case
  proof (cases "isInvalidType fu")
    case True
    then show ?thesis by (simp add: fu_def isAssignable_invalid_from)
  next
    case nif: False
    show ?thesis
    proof (cases "isInvalidType tu")
      case True
      then show ?thesis by (simp add: tu_def isAssignable_invalid_to)
    next
      case nit: False
      show ?thesis
      proof (cases "asUnionType fu")
        case (Some es)
        then have ues: "UnwrapType f = UnionType es" by (simp add: fu_def asUnionType_Some)
        have "isAssignable str e (UnwrapType to) = None" if "e \<in> set es" for e
        proof -
          have "size e < size f" using that ues szf size_elem_in_list [of e es] by (simp add: fu_def)
          then have "size e + size tu < size f + size to" using szt by simp
          then show ?thesis using less.hyps [of e tu] atu by (simp add: tu_def)
        qed
        then show ?thesis using isAssignable_union_from [of to f es str] nit ues by (simp add: tu_def)
      next
        case None
        have nif': "\<not> isInvalidType (UnwrapType f)" using nif by (simp add: fu_def)
        have nun': "asUnionType (UnwrapType f) = None" using None by (simp add: fu_def)
        show ?thesis
        proof (cases tu)
          case (Primitive p)
          then have "p = AnyType" using atu by simp
          then show ?thesis
            using isAssignable_primitive_to [of f to p str] nif' nun' Primitive
            by (simp add: tu_def Let_def)
        next
          case (InvalidType ds)
          then show ?thesis using nit by simp
        next
          case (OptionalType x)
          then show ?thesis using UnwrapType_not_wrapper(1) [of to x] by (simp add: tu_def)
        next
          case (InputType x)
          then show ?thesis using UnwrapType_not_wrapper(2) [of to x] by (simp add: tu_def)
        next
          case (MapType e)
          then show ?thesis using atu by simp
        next
          case (ArrayType e)
          then show ?thesis using atu by simp
        next
          case (EnumType a e)
          then have "acceptsEveryType e" using atu by simp
          moreover have "size fu + size e < size f + size to" using EnumType szf szt by simp
          ultimately have "isAssignable str fu e = None" using less.hyps [of fu e] by simp
          then show ?thesis
            using isAssignable_to_enum [of f to a e str] nif' nun' EnumType by (simp add: tu_def fu_def)
        next
          case (UnionType ts)
          then obtain t where t: "t \<in> set ts" "acceptsEveryType t" using atu by auto
          have "size t < size tu" using UnionType t(1) size_elem_in_list [of t ts] by simp
          then have "size fu + size t < size f + size to" using szf szt by simp
          then have "isAssignable str fu t = None" using less.hyps [of fu t] t(2) by simp
          then show ?thesis
            using isAssignable_to_union [of f to ts str] nif' nun' UnionType t(1)
            by (auto simp: tu_def fu_def)
        next
          case (ObjectType tok props)
          then show ?thesis using atu by simp
        next
          case (ResourceType tok props)
          then show ?thesis using atu by simp
        next
          case (TokenType a b)
          then obtain u' where u': "b = Some u'" "acceptsEveryType u'" using atu by (cases b) auto
          have "size fu + size u' < size f + size to" using TokenType u'(1) szf szt by simp
          then have "isAssignable str fu u' = None" using less.hyps [of fu u'] u'(2) by simp
          then show ?thesis
            using isAssignable_to_token [of f to a b str] nif' nun' TokenType u'(1)
            by (simp add: tu_def fu_def)
        qed
      qed
    qed
  qed
qed

lemma enum_rejected:
  "UnwrapType f = EnumType a e0 \<Longrightarrow>
   UnwrapType to = MapType e \<or> UnwrapType to = ArrayType e \<or>
   UnwrapType to = ObjectType tok ps \<or> UnwrapType to = ResourceType tok ps \<Longrightarrow>
   isAssignable str f to \<noteq> None"
  by (subst isAssignable.simps) (auto simp: Let_def okIf_def)

lemma enum_accepted_only:
  "UnwrapType f = EnumType a e0 \<Longrightarrow> isAssignable str f to = None \<Longrightarrow> acceptsEveryType to"
proof (induction "size to" arbitrary: f to rule: less_induct)
  case less
  define tu where "tu = UnwrapType to"
  have szt: "size tu \<le> size to" by (simp add: tu_def size_UnwrapType)
  have nif: "\<not> isInvalidType (UnwrapType f)" using less.prems(1) by simp
  have nun: "asUnionType (UnwrapType f) = None" using less.prems(1) by simp
  have uf: "UnwrapType (UnwrapType f) = EnumType a e0" using less.prems(1) by (simp add: UnwrapType_idem)
  have "acceptsEveryType tu"
  proof (cases tu)
    case (Primitive p)
    then show ?thesis
      using isAssignable_primitive_to [of f to p str] nif nun less.prems
      by (cases p) (simp_all add: tu_def Let_def okIf_def)
  next
    case (InvalidType ds)
    then show ?thesis by simp
  next
    case (OptionalType x)
    then show ?thesis using UnwrapType_not_wrapper(1) [of to x] by (simp add: tu_def)
  next
    case (InputType x)
    then show ?thesis using UnwrapType_not_wrapper(2) [of to x] by (simp add: tu_def)
  next
    case (MapType e)
    then show ?thesis using enum_rejected [of f a e0 to e _ _ str] less.prems by (simp add: tu_def)
  next
    case (ArrayType e)
    then show ?thesis using enum_rejected [of f a e0 to e _ _ str] less.prems by (simp add: tu_def)
  next
    case (EnumType a' e')
    then have "isAssignable str (UnwrapType f) e' = None"
      using isAssignable_to_enum [of f to a' e' str] nif nun less.prems(2) by (simp add: tu_def)
    moreover have "size e' < size to" using EnumType szt by simp
    ultimately have "acceptsEveryType e'" using less.hyps [of e' "UnwrapType f"] uf by simp
    then show ?thesis using EnumType by simp
  next
    case (UnionType ts)
    then obtain t where t: "t \<in> set ts" "isAssignable str (UnwrapType f) t = None"
      using isAssignable_to_union [of f to ts str] nif nun less.prems(2) by (auto simp: tu_def)
    have "size t < size to" using UnionType t(1) szt size_elem_in_list [of t ts] by simp
    then have "acceptsEveryType t" using less.hyps [of t "UnwrapType f"] uf t(2) by simp
    then show ?thesis using UnionType t(1) by auto
  next
    case (ObjectType tok props)
    then show ?thesis using enum_rejected [of f a e0 to _ tok props str] less.prems by (simp add: tu_def)
  next
    case (ResourceType tok props)
    then show ?thesis using enum_rejected [of f a e0 to _ tok props str] less.prems by (simp add: tu_def)
  next
    case (TokenType a' b)
    then obtain u' where u': "b = Some u'" "isAssignable str (UnwrapType f) u' = None"
      using isAssignable_to_token [of f to a' b str] nif nun less.prems(2)
      by (cases b) (simp_all add: tu_def)
    have "size u' < size to" using TokenType u'(1) szt by simp
    then have "acceptsEveryType u'" using less.hyps [of u' "UnwrapType f"] uf u'(2) by simp
    then show ?thesis using TokenType u'(1) by simp
  qed
  then show ?case by (simp add: tu_def acceptsEveryType_UnwrapType)
qed

lemma isAssignable_enum_reflexive:
  "(isAssignable str (EnumType a e) (EnumType a e) = None) = acceptsEveryType e"
proof -
  have "(isAssignable str (EnumType a e) (EnumType a e) = None) =
        (isAssignable str (EnumType a e) e = None)"
    using isAssignable_to_enum [of "EnumType a e" "EnumType a e" a e str] by simp
  also have "\<dots> = acceptsEveryType e"
    using enum_accepted_only [of "EnumType a e" a e str e] acceptsEveryType_accepts [of e str "EnumType a e"]
    by auto
  finally show ?thesis .
qed

lemma isAssignable_reach:
  "selfAssignable t \<Longrightarrow> reach t to \<Longrightarrow> isAssignable str t to = None"
proof (induction "size t" arbitrary: t to rule: less_induct)
  case less
  define u where "u = UnwrapType t"
  have su: "selfAssignable u" using less.prems(1) by (simp add: u_def selfAssignable_UnwrapType)
  have szu: "size u \<le> size t" by (simp add: u_def size_UnwrapType)
  show ?case
  proof (cases "isInvalidType u")
    case True
    then show ?thesis by (simp add: u_def isAssignable_invalid_from)
  next
    case notInv: False
    show ?thesis
    proof (cases "asUnionType u")
      case (Some es)
      then have ues: "UnwrapType t = UnionType es" by (simp add: u_def asUnionType_Some)
      show ?thesis
      proof (cases "isInvalidType (UnwrapType to)")
        case True
        then show ?thesis by (rule isAssignable_invalid_to)
      next
        case False
        have "isAssignable str e (UnwrapType to) = None" if "e \<in> set es" for e
        proof -
          have "size e < size t" using that ues szu size_elem_in_list [of e es] by (simp add: u_def)
          moreover have "selfAssignable e" using su that ues by (simp add: u_def)
          moreover have "reach e (UnwrapType to)"
            using reach_member [OF less.prems(2) ues that] by (rule reach_UnwrapType)
          ultimately show ?thesis using less.hyps by blast
        qed
        then show ?thesis using isAssignable_union_from [OF False ues] by simp
      qed
    next
      case None
      have uu: "UnwrapType u = u" by (simp add: u_def UnwrapType_idem)
      have refl_u: "isAssignable str u u = None"
      proof (cases u)
        case (Primitive p)
        then show ?thesis
          using isAssignable_primitive_to [of u u p str]
          by (cases p) (simp_all add: okIf_def)
      next
        case (InvalidType ds)
        then show ?thesis using notInv by simp
      next
        case (OptionalType x)
        then show ?thesis using UnwrapType_not_wrapper(1) [of t x] by (simp add: u_def)
      next
        case (InputType x)
        then show ?thesis using UnwrapType_not_wrapper(2) [of t x] by (simp add: u_def)
      next
        case (MapType e)
        have "size e < size t" using MapType szu by simp
        moreover have "selfAssignable e" using su MapType by simp
        moreover have "reach e e" by (simp add: reach.intros)
        ultimately have "isAssignable str e e = None" using less.hyps by blast
        then show ?thesis
          using isAssignable_map_to_map [of u e u e str] MapType by (simp add: okIfAssignable_def)
      next
        case (ArrayType e)
        have "size e < size t" using ArrayType szu by simp
        moreover have "selfAssignable e" using su ArrayType by simp
        moreover have "reach e e" by (simp add: reach.intros)
        ultimately have "isAssignable str e e = None" using less.hyps by blast
        then show ?thesis
          using isAssignable_array_to_array [of u e u e str] ArrayType by (simp add: okIfAssignable_def)
      next
        case (EnumType a e)
        then have "isAssignable str u e = None" using su acceptsEveryType_accepts by simp
        then show ?thesis
          using isAssignable_to_enum [of u u a e str] EnumType notInv None by (simp add: uu)
      next
        case (UnionType es)
        then show ?thesis using None by simp
      next
        case (ObjectType tok props)
        have "case Property props n of None \<Rightarrow> \<not> IsRequired ty
              | Some fty \<Rightarrow> isAssignable str fty ty = None" if "(n, ty) \<in> set props" for n ty
        proof -
          have "Property props n = Some ty"
            using su ObjectType that by (simp add: Property_distinct)
          moreover have "size ty < size t"
            using szu ObjectType size_prop_in_list [OF that] by simp
          moreover have "selfAssignable ty" using su ObjectType that by auto
          moreover have "reach ty ty" by (simp add: reach.intros)
          ultimately show ?thesis using less.hyps by simp
        qed
        then show ?thesis
          using isAssignable_object_to_object [of u tok props u tok props str] ObjectType
          by auto
      next
        case (ResourceType tok props)
        then show ?thesis
          using isAssignable_resource_to [of u u tok props str] by (simp add: okIf_def)
      next
        case (TokenType a b)
        then obtain u' where u': "b = Some u'" "acceptsEveryType u'" using su by (cases b) auto
        then have "isAssignable str u u' = None" using acceptsEveryType_accepts by simp
        then show ?thesis
          using isAssignable_to_token [of u u a b str] TokenType notInv None u'(1) by (simp add: uu)
      qed
      from less.prems(2) show ?thesis
      proof (induction rule: reach.induct)
        case (reach_same to')
        then have "isAssignable str t to' = isAssignable str u u"
          using isAssignable_unwrap [of str t to'] isAssignable_unwrap [of str u u]
          by (simp add: u_def UnwrapType_idem)
        then show ?case using refl_u by simp
      next
        case (reach_union to' es e)
        have "isAssignable str (UnwrapType t) e = None"
          using reach_union.IH isAssignable_unwrap [of str t e]
            isAssignable_unwrap [of str "UnwrapType t" e] by (simp add: UnwrapType_idem)
        then show ?case
          using isAssignable_to_union [of t to' es str] notInv None reach_union.hyps
          by (auto simp: u_def)
      qed
    qed
  qed
qed

lemma isAssignable_reflexive: "selfAssignable t \<Longrightarrow> isAssignable str t t = None"
  by (rule isAssignable_reach) (simp_all add: reach.intros)

lemma isAssignable_primitives:
  "(isAssignable str (Primitive a) (Primitive b) = None) =
     (b = AnyType \<or> a = b \<or>
      (b \<in> {NumberType, IntType} \<and> a \<in> {NumberType, IntType}) \<or>
      (b = StringType \<and> a \<in> {NumberType, IntType, BoolType}) \<or>
      (b = AssetType \<and> a = ArchiveType))"
  by (cases b; cases a) (simp_all add: isAssignable_primitive_to okIf_def)

lemma isAssignable_transitive_primitives:
  "isAssignable str (Primitive a) (Primitive b) = None \<Longrightarrow>
   isAssignable str (Primitive b) (Primitive c) = None \<Longrightarrow>
   isAssignable str (Primitive a) (Primitive c) = None"
  unfolding isAssignable_primitives by auto


subsection \<open>C10: invalid types are accepted silently\<close>

text \<open>
  C10. For every pair of types \<open>from\<close> and \<open>to\<close>, if either is the invalid type (under
  any optional or input wrappers, which \<open>isAssignable\<close> removes first) then
  \<open>isAssignable\<close> returns nil, and \<open>assertTypeAssignable\<close> leaves the context as it
  was: no secondary diagnostic is added at the use site.
\<close>

theorem isAssignable_invalid_accepts:
  assumes "isInvalidType (UnwrapType from) \<or> isInvalidType (UnwrapType to)"
  shows "isAssignable str from to = None \<and>
         assertTypeAssignable lib ctx (Typ from) (Typ to) = Inr ctx"
proof -
  have "isAssignable (typeString lib) from to = None" and "isAssignable str from to = None"
    using assms isAssignable_invalid_from isAssignable_invalid_to by blast+
  then show ?thesis by (simp add: assertTypeAssignable_def)
qed

theorem isAssignable_invalid_accepts_witness:
  "(isInvalidType (UnwrapType (OptionalType (InvalidType []))) \<or>
    isInvalidType (UnwrapType (Primitive StringType))) \<and>
   isAssignable (\<lambda>_. []) (OptionalType (InvalidType [])) (Primitive StringType) = None \<and>
   assertTypeAssignable \<lparr>typeString = \<lambda>_. [], quote = \<lambda>s. s, ToLower = \<lambda>s. s, MessageWithDetail = \<lambda>_ _ _ _ _ _. ([], []), mapKeys = remdups\<rparr>
     \<lparr>pkgLoader = \<lambda>_. Inl (LoaderError []), sdiags = []\<rparr>
     (Typ (OptionalType (InvalidType []))) (Typ (Primitive StringType))
   = Inr \<lparr>pkgLoader = \<lambda>_. Inl (LoaderError []), sdiags = []\<rparr>"
  using isAssignable_invalid_accepts [of "OptionalType (InvalidType [])" "Primitive StringType"
      "\<lambda>_. []" "\<lparr>typeString = \<lambda>_. [], quote = \<lambda>s. s, ToLower = \<lambda>s. s, MessageWithDetail = \<lambda>_ _ _ _ _ _. ([], []), mapKeys = remdups\<rparr>"
      "\<lparr>pkgLoader = \<lambda>_. Inl (LoaderError []), sdiags = []\<rparr>"]
  by simp

subsection \<open>C1: numeric targets\<close>




subsection \<open>C5: resource targets\<close>

text \<open>
  C5, as stated, fails: a resource target with an empty token does not accept a string,
  and any resource target accepts an invalid source, which is not a resource type.
\<close>

theorem isAssignable_resource_string_counterexample:
  "isAssignable (\<lambda>_. []) (Primitive StringType) (ResourceType [] []) \<noteq> None \<and>
   isAssignable (\<lambda>_. []) (InvalidType []) (ResourceType ''aws:s3/bucket:Bucket'' []) = None"
  by (simp add: isAssignable_resource_to okIf_def isAssignable_invalid_from)

text \<open>
  C5, amended. For a resource-type target: an invalid source is accepted; a union source
  is accepted exactly when each of its alternatives is; any other source is accepted
  exactly when it is a resource type whose token equals the target's token. There is
  no special case for a target with an empty token.
\<close>

theorem isAssignable_resource_target:
  shows "(isInvalidType (UnwrapType from) \<longrightarrow>
            isAssignable str from (ResourceType token props) = None) \<and>
         (\<forall>es. UnwrapType from = UnionType es \<longrightarrow>
            (isAssignable str from (ResourceType token props) = None) =
            (\<forall>e \<in> set es. isAssignable str e (ResourceType token props) = None)) \<and>
         (\<not> isInvalidType (UnwrapType from) \<and> asUnionType (UnwrapType from) = None \<longrightarrow>
            (isAssignable str from (ResourceType token props) = None) =
            (\<exists>fromProps. UnwrapType from = ResourceType token fromProps))"
proof (intro conjI impI allI)
  assume "isInvalidType (UnwrapType from)"
  then show "isAssignable str from (ResourceType token props) = None"
    by (rule isAssignable_invalid_from)
next
  fix es assume "UnwrapType from = UnionType es"
  then show "(isAssignable str from (ResourceType token props) = None) =
            (\<forall>e \<in> set es. isAssignable str e (ResourceType token props) = None)"
    using isAssignable_union_from [of "ResourceType token props" "from" es str] by simp
next
  assume "\<not> isInvalidType (UnwrapType from) \<and> asUnionType (UnwrapType from) = None"
  then show "(isAssignable str from (ResourceType token props) = None) =
            (\<exists>fromProps. UnwrapType from = ResourceType token fromProps)"
    by (cases "UnwrapType from") (auto simp: isAssignable_resource_to okIf_def)
qed

theorem isAssignable_resource_target_witness:
  "\<not> isInvalidType (UnwrapType (ResourceType ''aws:s3/bucket:Bucket'' [(''arn'', Primitive StringType)])) \<and>
   asUnionType (UnwrapType (ResourceType ''aws:s3/bucket:Bucket'' [(''arn'', Primitive StringType)])) = None \<and>
   isAssignable (\<lambda>_. []) (ResourceType ''aws:s3/bucket:Bucket'' [(''arn'', Primitive StringType)])
     (ResourceType ''aws:s3/bucket:Bucket'' []) = None"
  using isAssignable_resource_target [of "ResourceType ''aws:s3/bucket:Bucket'' [(''arn'', Primitive StringType)]"
     "\<lambda>_. []" "''aws:s3/bucket:Bucket''" "[]"]
  by simp

subsection \<open>C2: reflexivity and transitivity\<close>

text \<open>
  C2, as stated, fails: an enum type over string, which is not invalid, is not
  assignable to itself; nor is a token type over string, nor an object type with two
  properties of one name, of which \<^verbatim>\<open>ObjectType.Property\<close> finds the last.
\<close>

theorem isAssignable_enum_not_reflexive_counterexample:
  "\<not> isInvalidType (EnumType ''tk:index:Enum'' (Primitive StringType)) \<and>
   isAssignable (\<lambda>_. []) (EnumType ''tk:index:Enum'' (Primitive StringType))
     (EnumType ''tk:index:Enum'' (Primitive StringType)) \<noteq> None \<and>
   isAssignable (\<lambda>_. []) (TokenType ''tk:index:Tk'' (Some (Primitive StringType)))
     (TokenType ''tk:index:Tk'' (Some (Primitive StringType))) \<noteq> None \<and>
   isAssignable (\<lambda>_. [])
     (ObjectType ''tk:index:Obj'' [(''a'', Primitive NumberType), (''a'', Primitive BoolType)])
     (ObjectType ''tk:index:Obj'' [(''a'', Primitive NumberType), (''a'', Primitive BoolType)]) \<noteq> None"
proof -
  have e: "isAssignable (\<lambda>_. []) (EnumType ''tk:index:Enum'' (Primitive StringType))
     (EnumType ''tk:index:Enum'' (Primitive StringType)) \<noteq> None"
    by (subst isAssignable.simps) (simp add: isAssignable_primitive_to okIf_def Let_def)
  have t: "isAssignable (\<lambda>_. []) (TokenType ''tk:index:Tk'' (Some (Primitive StringType)))
     (TokenType ''tk:index:Tk'' (Some (Primitive StringType))) \<noteq> None"
    by (subst isAssignable.simps) (simp add: isAssignable_primitive_to okIf_def Let_def)
  have o: "isAssignable (\<lambda>_. [])
     (ObjectType ''tk:index:Obj'' [(''a'', Primitive NumberType), (''a'', Primitive BoolType)])
     (ObjectType ''tk:index:Obj'' [(''a'', Primitive NumberType), (''a'', Primitive BoolType)]) \<noteq> None"
    using isAssignable_object_to_object
      [of "ObjectType ''tk:index:Obj'' [(''a'', Primitive NumberType), (''a'', Primitive BoolType)]"
          "''tk:index:Obj''" "[(''a'', Primitive NumberType), (''a'', Primitive BoolType)]"
          "ObjectType ''tk:index:Obj'' [(''a'', Primitive NumberType), (''a'', Primitive BoolType)]"
          "''tk:index:Obj''" "[(''a'', Primitive NumberType), (''a'', Primitive BoolType)]" "\<lambda>_. []"]
    by (simp add: Property_def isAssignable_primitives)
  from e t o show ?thesis by simp
qed

text \<open>
  C2, amended. On the types that do not contain themselves, \<open>isAssignable\<close> is reflexive
  on every type in which, among the components it reads, no object type has two
  properties of one name and every enum type has an element type, and every token type
  an underlying type, that accepts every type (\<open>any\<close>, or a union, enum or token type
  over such a type): an enum type is assignable to itself exactly when its element type
  accepts every type. \<open>isAssignable\<close> is transitive on primitive types.
\<close>

theorem isAssignable_reflexive_and_transitive:
  "(selfAssignable t \<longrightarrow> isAssignable str t t = None) \<and>
   ((isAssignable str (EnumType n e) (EnumType n e) = None) = acceptsEveryType e) \<and>
   (isAssignable str (Primitive a) (Primitive b) = None \<and>
    isAssignable str (Primitive b) (Primitive c) = None \<longrightarrow>
    isAssignable str (Primitive a) (Primitive c) = None)"
  using isAssignable_reflexive [of t str] isAssignable_enum_reflexive [of str n e]
    isAssignable_transitive_primitives [of str a b c]
  by blast

theorem isAssignable_reflexive_and_transitive_witness:
  "selfAssignable
     (ArrayType (UnionType [Primitive StringType, MapType (OptionalType (Primitive IntType)),
        EnumType ''tk:index:Enum'' (Primitive AnyType),
        ObjectType ''tk:index:Obj'' [(''a'', TokenType ''tk:index:Tk'' (Some (Primitive AnyType)))]])) \<and>
   isAssignable (\<lambda>_. [])
     (ArrayType (UnionType [Primitive StringType, MapType (OptionalType (Primitive IntType)),
        EnumType ''tk:index:Enum'' (Primitive AnyType),
        ObjectType ''tk:index:Obj'' [(''a'', TokenType ''tk:index:Tk'' (Some (Primitive AnyType)))]]))
     (ArrayType (UnionType [Primitive StringType, MapType (OptionalType (Primitive IntType)),
        EnumType ''tk:index:Enum'' (Primitive AnyType),
        ObjectType ''tk:index:Obj'' [(''a'', TokenType ''tk:index:Tk'' (Some (Primitive AnyType)))]])) = None \<and>
   isAssignable (\<lambda>_. []) (EnumType ''tk:index:Enum'' (UnionType [Primitive StringType, Primitive AnyType]))
     (EnumType ''tk:index:Enum'' (UnionType [Primitive StringType, Primitive AnyType])) = None \<and>
   isAssignable (\<lambda>_. []) (Primitive IntType) (Primitive NumberType) = None \<and>
   isAssignable (\<lambda>_. []) (Primitive NumberType) (Primitive StringType) = None \<and>
   isAssignable (\<lambda>_. []) (Primitive IntType) (Primitive StringType) = None"
  using isAssignable_reflexive_and_transitive
    [of "ArrayType (UnionType [Primitive StringType, MapType (OptionalType (Primitive IntType)),
        EnumType ''tk:index:Enum'' (Primitive AnyType),
        ObjectType ''tk:index:Obj'' [(''a'', TokenType ''tk:index:Tk'' (Some (Primitive AnyType)))]])"
        "\<lambda>_. []" "''tk:index:Enum''" "UnionType [Primitive StringType, Primitive AnyType]"
        IntType NumberType StringType]
  by (simp add: isAssignable_primitives)

subsection \<open>C6: resolving a resource token\<close>

lemma genSplit_no_separator:
  "c \<notin> set s \<Longrightarrow> genSplit [c] cur s = [cur @ s]"
  by (induction s arbitrary: cur) auto

lemma Split_provider_token:
  "CHR '':'' \<notin> set n \<Longrightarrow> Split (''pulumi:providers:'' @ n) '':'' = [''pulumi'', ''providers'', n]"
  by (simp add: Split_def genSplit_no_separator)

lemma length_2: "length xs = 2 \<Longrightarrow> \<exists>a b. xs = [a, b]"
  by (cases xs; cases "tl xs") auto

lemma length_3: "length xs = 3 \<Longrightarrow> \<exists>a b c. xs = [a, b, c]"
  by (cases xs; cases "tl xs"; cases "tl (tl xs)") auto

text \<open>
  C6. For every type token of two or three colon-separated parts,
  \<open>resourcePackage.ResolveResource\<close> returns the token of the first resource found
  under the token verbatim, then under the form \<^verbatim>\<open>pkg:index:Name\<close> (for a token of two
  parts), then under the legacy form \<^verbatim>\<open>pkg:mod/lowerName:Name\<close>, whose module path
  ends in the third label in lower camel case; it fails with an error if none is found.
  The token \<^verbatim>\<open>pulumi:providers:pkg\<close> of the package's own name \<open>pkg\<close> is valid
  whatever the table of resources holds: it resolves to the provider's token.
\<close>

theorem ResolveResource_tries_forms_in_order:
  assumes "length (Split typeName '':'') = 2 \<or> length (Split typeName '':'') = 3"
  shows "resourcePackage_ResolveResource toLowerCamel p typeName =
           (if Split typeName '':'' = [''pulumi'', ''providers'', pkg_Name p]
            then Inr (pkg_ProviderToken p)
            else case firstFound (pkg_GetResource p) (specCandidates toLowerCamel typeName) of
                   Some token \<Rightarrow> Inr token
                 | None \<Rightarrow> Inl (UnableToFindResource typeName (pkg_ProviderPackageName p))) \<and>
         (CHR '':'' \<notin> set (pkg_Name p) \<longrightarrow>
            resourcePackage_ResolveResource toLowerCamel p (''pulumi:providers:'' @ pkg_Name p) =
              Inr (pkg_ProviderToken p))"
proof (intro conjI impI)
  from assms show "resourcePackage_ResolveResource toLowerCamel p typeName =
           (if Split typeName '':'' = [''pulumi'', ''providers'', pkg_Name p]
            then Inr (pkg_ProviderToken p)
            else case firstFound (pkg_GetResource p) (specCandidates toLowerCamel typeName) of
                   Some token \<Rightarrow> Inr token
                 | None \<Rightarrow> Inl (UnableToFindResource typeName (pkg_ProviderPackageName p)))"
  proof
    assume "length (Split typeName '':'') = 2"
    then obtain a b where "Split typeName '':'' = [a, b]" using length_2 by blast
    then show ?thesis
      by (simp add: resourcePackage_ResolveResource_def specCandidates_def Let_def
               split: option.splits)
  next
    assume "length (Split typeName '':'') = 3"
    then obtain a b c where "Split typeName '':'' = [a, b, c]" using length_3 by blast
    then show ?thesis
      by (simp add: resourcePackage_ResolveResource_def specCandidates_def Let_def
               split: option.splits)
  qed
next
  assume "CHR '':'' \<notin> set (pkg_Name p)"
  then show "resourcePackage_ResolveResource toLowerCamel p (''pulumi:providers:'' @ pkg_Name p) =
              Inr (pkg_ProviderToken p)"
    using Split_provider_token [of "pkg_Name p"]
    by (simp add: resourcePackage_ResolveResource_def Let_def del: append.simps)
qed

theorem ResolveResource_tries_forms_in_order_witness:
  "length (Split ''aws:s3:Bucket'' '':'') = 3 \<and>
   resourcePackage_ResolveResource (\<lambda>s. if s = ''Bucket'' then ''bucket'' else s)
     \<lparr>pkg_Name = ''aws'', pkg_ProviderToken = ''pulumi:providers:aws'',
      pkg_ProviderPackageName = ''aws'',
      pkg_GetResource = (\<lambda>t. if t = ''aws:s3/bucket:Bucket'' then Some ''aws:s3/bucket:Bucket'' else None),
      pkg_GetFunction = (\<lambda>_. None)\<rparr> ''aws:s3:Bucket'' = Inr ''aws:s3/bucket:Bucket'' \<and>
   CHR '':'' \<notin> set ''aws'' \<and>
   resourcePackage_ResolveResource (\<lambda>s. if s = ''Bucket'' then ''bucket'' else s)
     \<lparr>pkg_Name = ''aws'', pkg_ProviderToken = ''pulumi:providers:aws'',
      pkg_ProviderPackageName = ''aws'',
      pkg_GetResource = (\<lambda>t. if t = ''aws:s3/bucket:Bucket'' then Some ''aws:s3/bucket:Bucket'' else None),
      pkg_GetFunction = (\<lambda>_. None)\<rparr> ''pulumi:providers:aws'' = Inr ''pulumi:providers:aws''"
  using ResolveResource_tries_forms_in_order [of "''aws:s3:Bucket''"
     "\<lambda>s. if s = ''Bucket'' then ''bucket'' else s"
     "\<lparr>pkg_Name = ''aws'', pkg_ProviderToken = ''pulumi:providers:aws'',
      pkg_ProviderPackageName = ''aws'',
      pkg_GetResource = (\<lambda>t. if t = ''aws:s3/bucket:Bucket'' then Some ''aws:s3/bucket:Bucket'' else None),
      pkg_GetFunction = (\<lambda>_. None)\<rparr>"]
  by (simp add: Split_def specCandidates_def)

subsection \<open>C4: property access on a union\<close>







subsection \<open>C3: the type of a visited expression\<close>

lemma Split_foo: "Split ''foo'' '':'' = [''foo'']"
  by (simp add: Split_def)

lemma Split_test_fn: "Split ''test:fn'' '':'' = [''test'', ''fn'']"
  by (simp add: Split_def)

text \<open>
  C3 does not hold of the code. Visiting an invoke expression whose token does not
  resolve (here \<^verbatim>\<open>foo\<close>, which is no type token for any package loader) adds an
  error diagnostic and leaves the cache as it was; visiting one whose return name is
  not an output of the function adds an error diagnostic, tells the walk to go on, and
  leaves the cache as it was. In a cache that held no type for the expression,
  \<open>TypeExpr\<close> is then still nil and not an invalid type.
\<close>

theorem typeExpr_invoke_leaves_expression_untyped:
  "typeExpr lib tc ctx (InvokeExpr t ''foo'' callArgs return) =
     Inr (False, tc,
          addDiag ctx (Diagnostic DiagError (''invalid type token '' @ quote lib ''foo'') [])) \<and>
   typeExpr
     \<lparr>typeString = \<lambda>_. [], quote = \<lambda>s. s, ToLower = \<lambda>s. s,
      MessageWithDetail = \<lambda>parent fields n props field label. (field @ '' does not exist on '' @ parent, []),
      mapKeys = remdups\<rparr>
     tc
     \<lparr>pkgLoader = (\<lambda>name. if name = ''test''
         then Inr \<lparr>Package_Name = ''test'', Package_ResolveResource = \<lambda>t. Inr t,
                   Package_ResolveFunction = \<lambda>t. Inr t, Package_IsComponent = \<lambda>_. Inr False,
                   Package_FunctionTypeHint = \<lambda>_.
                     \<lparr>fn_Inputs = None,
                      fn_Outputs = Some (''test:fn:Result'', [(''result'', Primitive StringType)])\<rparr>\<rparr>
         else Inl (LoaderError ''package not found'')),
      sdiags = ds\<rparr>
     (InvokeExpr t ''test:fn'' None (Some ''bogus'')) =
     Inr (True, tc,
       \<lparr>pkgLoader = (\<lambda>name. if name = ''test''
         then Inr \<lparr>Package_Name = ''test'', Package_ResolveResource = \<lambda>t. Inr t,
                   Package_ResolveFunction = \<lambda>t. Inr t, Package_IsComponent = \<lambda>_. Inr False,
                   Package_FunctionTypeHint = \<lambda>_.
                     \<lparr>fn_Inputs = None,
                      fn_Outputs = Some (''test:fn:Result'', [(''result'', Primitive StringType)])\<rparr>\<rparr>
         else Inl (LoaderError ''package not found'')),
        sdiags = ds @ [Diagnostic DiagError ''bogus does not exist on test:fn'' []]\<rparr>) \<and>
   TypeExpr \<lparr>resources = \<lambda>_. None, configuration = \<lambda>_. None, outputs = \<lambda>_. None,
             exprs = \<lambda>_. None, resourceNames = \<lambda>_. None, variableNames = \<lambda>_. None\<rparr>
     (InvokeExpr t token callArgs return) = NilInterface"
  by (simp add: typeInvoke_def ResolveFunction_def loadPackage_def resolvePkgName_def
        Split_foo Split_test_fn ctx_error_def TypeExpr_def lookup_def addDiag_def)

subsection \<open>C8: joining what was split\<close>

lemma genSplit_not_Nil: "genSplit sep cur s \<noteq> []"
  by (induction sep cur s rule: genSplit.induct) auto

lemma Join_Cons: "ys \<noteq> [] \<Longrightarrow> Join (x # ys) sep = x @ sep @ Join ys sep"
  by (cases ys) auto

lemma Join_genSplit: "sep \<noteq> [] \<Longrightarrow> Join (genSplit sep cur s) sep = cur @ s"
proof (induction sep cur s rule: genSplit.induct)
  case (1 sep cur)
  then show ?case by simp
next
  case (2 sep cur c cs)
  show ?case
  proof (cases "prefix sep (c # cs)")
    case True
    then have "sep @ drop (length sep) (c # cs) = c # cs"
      by (metis append_eq_conv_conj prefixE)
    then show ?thesis
      using 2 True by (simp add: Join_Cons genSplit_not_Nil del: drop.simps)
  next
    case False
    then show ?thesis using 2 by simp
  qed
qed

lemma joinErrors_strings: "joinErrors i (map PString xs) = []"
  by (induction xs arbitrary: i) auto

lemma somes_asString: "somes (map (asString \<circ> PString) xs) = xs"
  by (induction xs) auto

text \<open>
  C8. For every string \<open>s\<close> and every non-empty delimiter \<open>d\<close>, \<open>fn::split\<close> with
  delimiter \<open>d\<close> applied to \<open>s\<close> yields a list of strings over which \<open>fn::join\<close> with
  delimiter \<open>d\<close> yields \<open>s\<close>; splitting the empty string yields the single-element list
  of the empty string.
\<close>

theorem join_split_roundtrip:
  assumes "d \<noteq> []"
  shows "evaluateBuiltinSplit (PString d) (PString s) = Inr (PList (map PString (Split s d))) \<and>
         evaluateBuiltinJoin (PString d) (PList (map PString (Split s d))) = Inr (PString s) \<and>
         evaluateBuiltinSplit (PString d) (PString []) = Inr (PList [PString []])"
  using assms Join_genSplit [of d "[]" s]
  by (simp add: evaluateBuiltinSplit_def evaluateBuiltinJoin_def joinErrors_strings
        somes_asString Split_def)

theorem join_split_roundtrip_witness:
  "''-'' \<noteq> [] \<and>
   evaluateBuiltinSplit (PString ''-'') (PString ''1-2-3-4'') =
     Inr (PList [PString ''1'', PString ''2'', PString ''3'', PString ''4'']) \<and>
   evaluateBuiltinJoin (PString ''-'')
     (PList [PString ''1'', PString ''2'', PString ''3'', PString ''4'']) = Inr (PString ''1-2-3-4'')"
  using join_split_roundtrip [of "''-''" "''1-2-3-4''"]
  by (simp add: Split_def)

subsection \<open>C7: base64 round trip\<close>

lemma indexOf_nth: "c \<in> set xs \<Longrightarrow> xs ! indexOf c xs = c"
  by (induction xs) auto

lemma indexOf_less: "c \<in> set xs \<Longrightarrow> indexOf c xs < length xs"
  by (induction xs) auto

lemma dec_Some: "dec c = Some n \<Longrightarrow> n < 64 \<and> enc n = c"
  using indexOf_nth [of c alphabet] indexOf_less [of c alphabet]
  by (auto simp: dec_def enc_def split: if_splits) (simp add: alphabet_def)

lemma byte_char_of: "n < 256 \<Longrightarrow> byte (char_of n) = n"
  by (simp add: byte_def)

lemma byte_less: "byte c < 256"
  by (simp add: byte_def)

lemma char_of_byte: "char_of (byte c) = c"
  by (simp add: byte_def)

lemma indexOf_nth_distinct: "distinct xs \<Longrightarrow> n < length xs \<Longrightarrow> indexOf (xs ! n) xs = n"
proof (induction xs arbitrary: n)
  case Nil
  then show ?case by simp
next
  case (Cons x xs)
  then show ?case by (cases n) auto
qed

lemma distinct_alphabet: "distinct alphabet"
  by (simp add: alphabet_def)

lemma length_alphabet: "length alphabet = 64"
  by (simp add: alphabet_def)

lemma enc_in_alphabet: "n < 64 \<Longrightarrow> enc n \<in> set alphabet"
  by (simp add: enc_def length_alphabet)

lemma dec_enc: "n < 64 \<Longrightarrow> dec (enc n) = Some n"
  using indexOf_nth_distinct [OF distinct_alphabet, of n]
  by (simp add: dec_def enc_in_alphabet length_alphabet) (simp add: enc_def)

lemma alphabet_plain: "c \<in> set alphabet \<Longrightarrow> c \<noteq> CHR ''='' \<and> \<not> isLineBreak c"
  by (auto simp: alphabet_def isLineBreak_def)

lemma enc_plain: "n < 64 \<Longrightarrow> enc n \<noteq> CHR ''='' \<and> \<not> isLineBreak (enc n)"
  using alphabet_plain enc_in_alphabet by blast

lemma octet_1: fixes x :: nat shows "x < 256 \<Longrightarrow> x div 4 < 64"
  by simp
lemma octet_2: fixes x y :: nat shows "y < 256 \<Longrightarrow> (x mod 4) * 16 + y div 16 < 64"
proof -
  assume "y < 256"
  then have "y div 16 < 16" by simp
  moreover have "x mod 4 \<le> 3" by simp
  then have "(x mod 4) * 16 \<le> 48" by simp
  ultimately show ?thesis by linarith
qed
lemma octet_3: fixes y z :: nat shows "z < 256 \<Longrightarrow> (y mod 16) * 4 + z div 64 < 64"
proof -
  assume "z < 256"
  then have "z div 64 < 4" by simp
  moreover have "y mod 16 \<le> 15" by simp
  then have "(y mod 16) * 4 \<le> 60" by simp
  ultimately show ?thesis by linarith
qed
lemma octet_2': fixes x :: nat shows "(x mod 4) * 16 < 64"
  using octet_2 [of 0 x] by simp
lemma octet_3': fixes y :: nat shows "(y mod 16) * 4 < 64"
  using octet_3 [of 0 y] by simp

lemma octet_b1: fixes x y :: nat
  shows "y < 256 \<Longrightarrow> (x div 4) * 4 + ((x mod 4) * 16 + y div 16) div 16 = x"
  by (simp add: less_mult_imp_div_less)
lemma octet_b2: fixes x y z :: nat
  shows "y < 256 \<Longrightarrow> z < 256 \<Longrightarrow>
         (((x mod 4) * 16 + y div 16) mod 16) * 16 + ((y mod 16) * 4 + z div 64) div 4 = y"
  by (simp add: less_mult_imp_div_less)
lemma octet_b3: fixes y z :: nat
  shows "z < 256 \<Longrightarrow> (((y mod 16) * 4 + z div 64) mod 4) * 64 + z mod 64 = z"
  by (simp add: less_mult_imp_div_less)


lemma sextet_1a: fixes a b :: nat assumes "a < 64" "b < 64" shows "a * 4 + b div 16 < 256"
  using assms by simp
lemma sextet_1b: fixes a b :: nat assumes "b < 64" shows "(a * 4 + b div 16) div 4 = a"
  using assms by (simp add: div_mult2_eq [symmetric])
lemma sextet_1c: fixes a b :: nat assumes "b < 64" shows "(a * 4 + b div 16) mod 4 = b div 16"
  using assms by (simp add: less_mult_imp_div_less)
lemma sextet_2a: fixes b c :: nat assumes "c < 64" shows "(b mod 16) * 16 + c div 4 < 256"
proof -
  have "b mod 16 \<le> 15" by simp
  then have "(b mod 16) * 16 \<le> 240" by simp
  moreover have "c div 4 < 16" using assms by simp
  ultimately show ?thesis by linarith
qed
lemma sextet_2b: fixes b c :: nat assumes "c < 64" shows "((b mod 16) * 16 + c div 4) div 16 = b mod 16"
  using assms by (simp add: less_mult_imp_div_less)
lemma sextet_2c: fixes b c :: nat assumes "c < 64" shows "((b mod 16) * 16 + c div 4) mod 16 = c div 4"
  using assms by (simp add: less_mult_imp_div_less)
lemma sextet_3a: fixes c d :: nat assumes "d < 64" shows "(c mod 4) * 64 + d < 256"
proof -
  have "c mod 4 \<le> 3" by simp
  then have "(c mod 4) * 64 \<le> 192" by simp
  then show ?thesis using assms by linarith
qed
lemma sextet_3b: fixes c d :: nat assumes "d < 64" shows "((c mod 4) * 64 + d) div 64 = c mod 4"
  using assms by simp
lemma sextet_3c: fixes c d :: nat assumes "d < 64" shows "((c mod 4) * 64 + d) mod 64 = d"
  using assms by simp
lemma sextet_join: fixes b c :: nat
  shows "(b div 16) * 16 + b mod 16 = b" "(c div 4) * 4 + c mod 4 = c"
        "b mod 16 = 0 \<Longrightarrow> (b div 16) * 16 = b" "c mod 4 = 0 \<Longrightarrow> (c div 4) * 4 = c"
  by auto

lemma EncodeToString_group:
  assumes "dec w = Some a" "dec x = Some b" "dec y = Some c" "dec z = Some d"
  shows "EncodeToString ([char_of (a * 4 + b div 16), char_of ((b mod 16) * 16 + c div 4),
                          char_of ((c mod 4) * 64 + d)] @ bs) = [w, x, y, z] @ EncodeToString bs"
proof -
  from assms have lt: "a < 64" "b < 64" "c < 64" "d < 64"
    and e: "enc a = w" "enc b = x" "enc c = y" "enc d = z"
    using dec_Some by blast+
  show ?thesis
    using lt e
    by (simp add: Let_def byte_char_of sextet_1a sextet_1b sextet_1c sextet_2a sextet_2b sextet_2c
          sextet_3a sextet_3b sextet_3c sextet_join)
qed

lemma EncodeToString_pad1:
  assumes "dec w = Some a" "dec x = Some b" "dec y = Some c" "c mod 4 = 0"
  shows "EncodeToString [char_of (a * 4 + b div 16), char_of ((b mod 16) * 16 + c div 4)] =
         [w, x, y, CHR ''='']"
proof -
  from assms have lt: "a < 64" "b < 64" "c < 64"
    and e: "enc a = w" "enc b = x" "enc c = y"
    using dec_Some by blast+
  show ?thesis
    using lt e assms(4)
    by (simp add: Let_def byte_char_of sextet_1a sextet_1b sextet_1c sextet_2a sextet_2b sextet_2c
          sextet_join)
qed

lemma EncodeToString_pad2:
  assumes "dec w = Some a" "dec x = Some b" "b mod 16 = 0"
  shows "EncodeToString [char_of (a * 4 + b div 16)] = [w, x, CHR ''='', CHR ''='']"
proof -
  from assms have lt: "a < 64" "b < 64" and e: "enc a = w" "enc b = x"
    using dec_Some by blast+
  show ?thesis
    using lt e assms(3)
    by (simp add: Let_def byte_char_of sextet_1a sextet_1b sextet_1c sextet_join)
qed

lemma dec_pad: "dec (CHR ''='') = None"
  by (simp add: dec_def alphabet_def)

lemma decodeQuanta_EncodeToString:
  "decodeQuanta s = Some b \<Longrightarrow> paddingBitsZero s \<Longrightarrow> EncodeToString b = s"
proof (induction s arbitrary: b rule: decodeQuanta.induct)
  case 1
  then show ?case by simp
next
  case (2 w x y z rest)
  from "2.prems"(1) obtain a b' where ab: "dec w = Some a" "dec x = Some b'"
    by (auto split: option.splits)
  show ?case
  proof (cases "y = CHR ''=''")
    case True
    with "2.prems" ab have "z = CHR ''=''" "rest = []" "b' mod 16 = 0"
      "b = [char_of (a * 4 + b' div 16)]"
      by (auto split: if_splits)
    then show ?thesis using EncodeToString_pad2 [OF ab] True by simp
  next
    case nopad2: False
    with "2.prems"(1) ab obtain c where c: "dec y = Some c"
      by (auto split: option.splits if_splits)
    show ?thesis
    proof (cases "z = CHR ''=''")
      case True
      with "2.prems" ab c nopad2 have "rest = []" "c mod 4 = 0"
        "b = [char_of (a * 4 + b' div 16), char_of ((b' mod 16) * 16 + c div 4)]"
        by (auto split: if_splits)
      then show ?thesis using EncodeToString_pad1 [OF ab c] True by simp
    next
      case nopad1: False
      with "2.prems"(1) ab c nopad2 obtain d bs where d: "dec z = Some d"
        and bs: "decodeQuanta rest = Some bs"
        and b: "b = [char_of (a * 4 + b' div 16), char_of ((b' mod 16) * 16 + c div 4),
                     char_of ((c mod 4) * 64 + d)] @ bs"
        by (auto split: option.splits if_splits)
      have pz: "paddingBitsZero rest" using "2.prems"(2) nopad1 nopad2 by simp
      have "EncodeToString bs = rest"
        using "2.IH" [OF _ ab(1) ab(2) nopad2 c nopad1 d bs pz] by simp
      then show ?thesis using EncodeToString_group [OF ab c d, of bs] b by simp
    qed
  qed
qed simp_all

lemma decodeQuanta_of_EncodeToString: "decodeQuanta (EncodeToString t) = Some t"
proof (induction t rule: EncodeToString.induct)
  case 1
  then show ?case by simp
next
  case (2 a)
  show ?case
    using byte_less [of a]
    by (simp add: Let_def dec_enc octet_1 octet_2' less_mult_imp_div_less char_of_byte)
next
  case (3 a b)
  show ?case
    using byte_less [of a] byte_less [of b] enc_plain [of "(byte b mod 16) * 4"]
      octet_b1 [of "byte b" "byte a"] octet_b2 [of "byte b" 0 "byte a"]
    by (simp add: Let_def dec_enc octet_1 octet_2 octet_3' char_of_byte)
next
  case (4 a b c rest)
  show ?case
    using byte_less [of a] byte_less [of b] byte_less [of c]
      enc_plain [of "(byte b mod 16) * 4 + byte c div 64"] enc_plain [of "byte c mod 64"]
      octet_b1 [of "byte b" "byte a"] octet_b2 [of "byte b" "byte c" "byte a"]
      octet_b3 [of "byte c" "byte b"] "4.IH"
    by (simp add: Let_def dec_enc octet_1 octet_2 octet_3 char_of_byte)
qed

lemma paddingBitsZero_EncodeToString: "paddingBitsZero (EncodeToString t)"
proof (induction t rule: EncodeToString.induct)
  case 1
  then show ?case by simp
next
  case (2 a)
  show ?case by (simp add: Let_def dec_enc octet_2')
next
  case (3 a b)
  show ?case
    using byte_less [of b] enc_plain [of "(byte b mod 16) * 4"]
    by (simp add: Let_def dec_enc octet_3')
next
  case (4 a b c rest)
  show ?case
    using byte_less [of c]
      enc_plain [of "(byte b mod 16) * 4 + byte c div 64"] enc_plain [of "byte c mod 64"] "4.IH"
    by (simp add: Let_def octet_3)
qed

lemma no_line_break_EncodeToString: "filter isLineBreak (EncodeToString t) = []"
proof (induction t rule: EncodeToString.induct)
  case 1
  then show ?case by simp
next
  case (2 a)
  show ?case
    using byte_less [of a] enc_plain [of "byte a div 4"] enc_plain [of "(byte a mod 4) * 16"]
    by (simp add: Let_def octet_1 octet_2') (simp add: isLineBreak_def)
next
  case (3 a b)
  show ?case
    using byte_less [of a] byte_less [of b] enc_plain [of "byte a div 4"]
      enc_plain [of "(byte a mod 4) * 16 + byte b div 16"] enc_plain [of "(byte b mod 16) * 4"]
    by (simp add: Let_def octet_1 octet_2 octet_3') (simp add: isLineBreak_def)
next
  case (4 a b c rest)
  show ?case
    using byte_less [of a] byte_less [of b] byte_less [of c] enc_plain [of "byte a div 4"]
      enc_plain [of "(byte a mod 4) * 16 + byte b div 16"]
      enc_plain [of "(byte b mod 16) * 4 + byte c div 64"] enc_plain [of "byte c mod 64"] "4.IH"
    by (simp add: Let_def octet_1 octet_2 octet_3)
qed

lemma filter_not_line_break: "filter isLineBreak s = [] \<Longrightarrow> filter (\<lambda>c. \<not> isLineBreak c) s = s"
  by (induction s) (auto split: if_splits)

lemma DecodeString_of_EncodeToString: "DecodeString (EncodeToString t) = Some t"
  by (simp add: DecodeString_def filter_not_line_break no_line_break_EncodeToString
        decodeQuanta_of_EncodeToString)

lemma roundtrip_iff_canonical:
  assumes "DecodeString s = Some decoded"
  shows "(EncodeToString decoded = s) = canonical s"
proof
  assume "EncodeToString decoded = s"
  then show "canonical s"
    using no_line_break_EncodeToString [of decoded] paddingBitsZero_EncodeToString [of decoded]
    by (auto simp: canonical_def)
next
  assume c: "canonical s"
  then have "decodeQuanta s = Some decoded"
    using assms by (simp add: canonical_def DecodeString_def filter_not_line_break)
  then show "EncodeToString decoded = s"
    using c decodeQuanta_EncodeToString by (simp add: canonical_def)
qed

text \<open>
  The inputs of the test \<^verbatim>\<open>TestFromBase64ErrorOnInvalidUTF8\<close>: the encodings of
  well-formed sequences of one to four bytes are accepted, those of the ill-formed
  sequences are not.
\<close>

lemma fromBase64_test_vectors:
  "evaluateBuiltinFromBase64 (PString (EncodeToString ''a'')) = Inr (PString ''a'')"
  "evaluateBuiltinFromBase64 (PString (EncodeToString [CHR 0xC3, CHR 0xB1])) =
     Inr (PString [CHR 0xC3, CHR 0xB1])"
  "evaluateBuiltinFromBase64 (PString (EncodeToString [CHR 0xE2, CHR 0x82, CHR 0xA1])) =
     Inr (PString [CHR 0xE2, CHR 0x82, CHR 0xA1])"
  "evaluateBuiltinFromBase64 (PString (EncodeToString [CHR 0xF0, CHR 0x90, CHR 0x8C, CHR 0xBC])) =
     Inr (PString [CHR 0xF0, CHR 0x90, CHR 0x8C, CHR 0xBC])"
  "evaluateBuiltinFromBase64 (PString (EncodeToString [CHR 0xF8, CHR 0xA1, CHR 0xA1, CHR 0xA1, CHR 0xA1])) =
     Inl [EvalError ''invalid UTF-8'']"
  "evaluateBuiltinFromBase64
     (PString (EncodeToString [CHR 0xFC, CHR 0xA1, CHR 0xA1, CHR 0xA1, CHR 0xA1, CHR 0xA1])) =
     Inl [EvalError ''invalid UTF-8'']"
  "evaluateBuiltinFromBase64 (PString (EncodeToString [CHR 0xC3, CHR 0x28])) =
     Inl [EvalError ''invalid UTF-8'']"
  "evaluateBuiltinFromBase64 (PString (EncodeToString [CHR 0xA0, CHR 0xA1])) =
     Inl [EvalError ''invalid UTF-8'']"
  "evaluateBuiltinFromBase64 (PString (EncodeToString [CHR 0xE2, CHR 0x28, CHR 0xA1])) =
     Inl [EvalError ''invalid UTF-8'']"
  "evaluateBuiltinFromBase64 (PString (EncodeToString [CHR 0xE2, CHR 0x82, CHR 0x28])) =
     Inl [EvalError ''invalid UTF-8'']"
  "evaluateBuiltinFromBase64 (PString (EncodeToString [CHR 0xF0, CHR 0x28, CHR 0x8C, CHR 0xBC])) =
     Inl [EvalError ''invalid UTF-8'']"
  "evaluateBuiltinFromBase64 (PString (EncodeToString [CHR 0xF0, CHR 0x90, CHR 0x28, CHR 0xBC])) =
     Inl [EvalError ''invalid UTF-8'']"
  "evaluateBuiltinFromBase64 (PString (EncodeToString [CHR 0xF0, CHR 0x28, CHR 0x8C, CHR 0x28])) =
     Inl [EvalError ''invalid UTF-8'']"
  by code_simp+

text \<open>
  C7, as stated, fails. The input \<^verbatim>\<open>SGVsbG9=\<close>, whose last group has a bit set beyond
  the two bytes it encodes, decodes to the valid UTF-8 string \<^verbatim>\<open>Hello\<close>, and
  \<open>fn::toBase64\<close> of that is \<^verbatim>\<open>SGVsbG8=\<close>, not the input; so it is for
  \<^verbatim>\<open>SGVsbG8=\<close> with a line feed inside.
\<close>

theorem base64_roundtrip_counterexample:
  "evaluateBuiltinFromBase64 (PString ''SGVsbG9='') = Inr (PString ''Hello'') \<and>
   ValidString ''Hello'' \<and>
   evaluateBuiltinToBase64 (PString ''Hello'') = Inr (PString ''SGVsbG8='') \<and>
   evaluateBuiltinToBase64 (PString ''Hello'') \<noteq> Inr (PString ''SGVsbG9='') \<and>
   evaluateBuiltinFromBase64 (PString (''SGVs'' @ [CHR 0x0A] @ ''bG8='')) = Inr (PString ''Hello'') \<and>
   evaluateBuiltinToBase64 (PString ''Hello'') \<noteq> Inr (PString (''SGVs'' @ [CHR 0x0A] @ ''bG8=''))"
  by code_simp

text \<open>
  C7, amended. For every input string \<open>s\<close> whose base64 decoding is a valid UTF-8
  string, \<open>fn::fromBase64\<close> gives the decoded string and \<open>fn::toBase64\<close> of it gives
  the standard encoding of the decoded string, which \<open>fn::fromBase64\<close> decodes to the
  same string again, and which is \<open>s\<close> exactly when \<open>s\<close> is canonical: it holds no
  line break and no bit is set in its last group beyond the bytes encoded. For every
  input whose base64 decoding is not valid UTF-8, \<open>fn::fromBase64\<close> fails with an
  error.
\<close>

theorem base64_roundtrip:
  assumes "DecodeString s = Some decoded"
  shows "(ValidString decoded \<longrightarrow>
            evaluateBuiltinFromBase64 (PString s) = Inr (PString decoded) \<and>
            evaluateBuiltinToBase64 (PString decoded) = Inr (PString (EncodeToString decoded)) \<and>
            evaluateBuiltinFromBase64 (PString (EncodeToString decoded)) = Inr (PString decoded) \<and>
            ((EncodeToString decoded = s) = canonical s)) \<and>
         (\<not> ValidString decoded \<longrightarrow>
            evaluateBuiltinFromBase64 (PString s) = Inl [EvalError ''invalid UTF-8''])"
  using assms roundtrip_iff_canonical [OF assms] DecodeString_of_EncodeToString [of decoded]
  by (simp add: evaluateBuiltinFromBase64_def evaluateBuiltinToBase64_def)

theorem base64_roundtrip_witness:
  "DecodeString ''SGVsbG8sIFdvcmxk'' = Some ''Hello, World'' \<and>
   ValidString ''Hello, World'' \<and> canonical ''SGVsbG8sIFdvcmxk'' \<and>
   evaluateBuiltinFromBase64 (PString ''SGVsbG8sIFdvcmxk'') = Inr (PString ''Hello, World'') \<and>
   evaluateBuiltinToBase64 (PString ''Hello, World'') = Inr (PString ''SGVsbG8sIFdvcmxk'') \<and>
   DecodeString ''w7E='' = Some [CHR 0xC3, CHR 0xB1] \<and>
   ValidString [CHR 0xC3, CHR 0xB1] \<and> canonical ''w7E='' \<and>
   evaluateBuiltinFromBase64 (PString ''w7E='') = Inr (PString [CHR 0xC3, CHR 0xB1]) \<and>
   evaluateBuiltinToBase64 (PString [CHR 0xC3, CHR 0xB1]) = Inr (PString ''w7E='') \<and>
   DecodeString ''SGVsbG9='' = Some ''Hello'' \<and> \<not> canonical ''SGVsbG9='' \<and>
   EncodeToString ''Hello'' \<noteq> ''SGVsbG9='' \<and>
   evaluateBuiltinFromBase64 (PString (EncodeToString ''Hello'')) = Inr (PString ''Hello'') \<and>
   DecodeString ''wyg='' = Some [CHR 0xC3, CHR 0x28] \<and>
   \<not> ValidString [CHR 0xC3, CHR 0x28] \<and>
   evaluateBuiltinFromBase64 (PString ''wyg='') = Inl [EvalError ''invalid UTF-8'']"
proof -
  have d1: "DecodeString ''SGVsbG8sIFdvcmxk'' = Some ''Hello, World''" by code_simp
  have v1: "ValidString ''Hello, World''" by code_simp
  have c1: "canonical ''SGVsbG8sIFdvcmxk''" by code_simp
  have d2: "DecodeString ''wyg='' = Some [CHR 0xC3, CHR 0x28]" by code_simp
  have v2: "\<not> ValidString [CHR 0xC3, CHR 0x28]" by code_simp
  have d3: "DecodeString ''w7E='' = Some [CHR 0xC3, CHR 0xB1]" by code_simp
  have v3: "ValidString [CHR 0xC3, CHR 0xB1]" by code_simp
  have c3: "canonical ''w7E=''" by code_simp
  have d4: "DecodeString ''SGVsbG9='' = Some ''Hello''" by code_simp
  have v4: "ValidString ''Hello''" by code_simp
  have c4: "\<not> canonical ''SGVsbG9=''" by code_simp
  have e1: "EncodeToString ''Hello, World'' = ''SGVsbG8sIFdvcmxk''"
    using base64_roundtrip [OF d1] v1 c1 by blast
  have r1: "evaluateBuiltinFromBase64 (PString ''SGVsbG8sIFdvcmxk'') = Inr (PString ''Hello, World'') \<and>
            evaluateBuiltinToBase64 (PString ''Hello, World'') = Inr (PString ''SGVsbG8sIFdvcmxk'')"
    using base64_roundtrip [OF d1] v1 unfolding e1 by blast
  have e3: "EncodeToString [CHR 0xC3, CHR 0xB1] = ''w7E=''"
    using base64_roundtrip [OF d3] v3 c3 by blast
  have r3: "evaluateBuiltinFromBase64 (PString ''w7E='') = Inr (PString [CHR 0xC3, CHR 0xB1]) \<and>
            evaluateBuiltinToBase64 (PString [CHR 0xC3, CHR 0xB1]) = Inr (PString ''w7E='')"
    using base64_roundtrip [OF d3] v3 unfolding e3 by blast
  have r4: "EncodeToString ''Hello'' \<noteq> ''SGVsbG9='' \<and>
            evaluateBuiltinFromBase64 (PString (EncodeToString ''Hello'')) = Inr (PString ''Hello'')"
    using base64_roundtrip [OF d4] v4 c4 by blast
  have r2: "evaluateBuiltinFromBase64 (PString ''wyg='') = Inl [EvalError ''invalid UTF-8'']"
    using base64_roundtrip [OF d2] v2 by blast
  from d1 v1 c1 r1 d3 v3 c3 r3 d4 c4 r4 d2 v2 r2 show ?thesis by blast
qed

end
